theory Spec2Isabelle
  imports Complex_Main "HOL-Library.AList" "HOL-Library.Word"
begin

section \<open>Data model of the key-issuing bot (bot.py)\<close>

text \<open>
  The bot keeps its whole state in one JSON file, \<^verbatim>\<open>data.json\<close>:
  a dictionary \<^verbatim>\<open>users\<close> from user-id strings to user records and a
  dictionary \<^verbatim>\<open>pending\<close> from payment comments to payment intents.
  Python dictionaries keep insertion order and have unique keys, so they are
  association lists here, looked up with \<^const>\<open>map_of\<close> and written with
  \<^const>\<open>AList.update\<close> (replace in place, else append) and
  \<^const>\<open>AList.delete\<close>. Python integers are \<^typ>\<open>int\<close>, float
  timestamps are \<^typ>\<open>real\<close>, \<^verbatim>\<open>None\<close> is \<^const>\<open>None\<close>.
\<close>

datatype py_error =
    ValueError
  | KeyError
  | FileNotFoundError
  | PermissionError
  | JSONDecodeError
  | UnicodeDecodeError
  | TelegramError

record key_obj =
  id_k :: string
  key :: string
  valid_until :: real
  created_at :: real

record user_record =
  username :: "string option"
  manual_limit :: "int option"
  keys_used :: int
  keys :: "key_obj list"

record pending_info =
  user_id :: string
  amount :: real
  created_at_p :: real
  status :: string

record snapshot =
  users :: "(string \<times> user_record) list"
  pending :: "(string \<times> pending_info) list"

text \<open>
  The module-level configuration read from the process environment:
  \<^verbatim>\<open>ADMINS\<close>, \<^verbatim>\<open>CHAT_ID_1\<close>, \<^verbatim>\<open>CHAT_ID_2\<close>
  (0 when the variable is not set). \<^verbatim>\<open>KEYS_PER_CHAT\<close> is a constant of the
  source.
\<close>

record config =
  ADMINS :: "int list"
  CHAT_ID_1 :: int
  CHAT_ID_2 :: int

definition KEYS_PER_CHAT :: int where
  "KEYS_PER_CHAT = 3"

text \<open>
  \<^verbatim>\<open>bot.get_chat_member(chat_id, user_id)\<close> is an external call: it returns a
  member object whose \<^verbatim>\<open>status\<close> is a string, or raises. The answer of the
  Telegram API is an input of the model, a function of the chat and the user.
\<close>

type_synonym telegram = "int \<Rightarrow> int \<Rightarrow> py_error + string"

section \<open>Python strings and numbers\<close>

text \<open>\<^verbatim>\<open>str(n)\<close> for an integer: the decimal digits, with a minus sign when negative.\<close>

definition digit_char :: "nat \<Rightarrow> char" where
  "digit_char d = ''0123456789'' ! d"

fun str_nat :: "nat \<Rightarrow> string" where
  "str_nat n = (if n < 10 then [digit_char n] else str_nat (n div 10) @ [digit_char (n mod 10)])"

declare str_nat.simps [simp del]

definition str_int :: "int \<Rightarrow> string" where
  "str_int i = (if i < 0 then CHR ''-'' # str_nat (nat (- i)) else str_nat (nat i))"

text \<open>
  \<^verbatim>\<open>int(s)\<close> for a string of CPython, a character being a code point below 256.
  The blanks \<^verbatim>\<open>int\<close> skips at both ends are tab, line feed, vertical tab, form
  feed, carriage return and space, and the two blanks above 127, next line (133) and
  no-break space (160); the separators 28 to 31 are not among them. Then one sign is
  allowed, then decimal digits, where single underscores may stand between digits.
  A string with more than 4300 digits is refused (the default of
  \<^verbatim>\<open>sys.set_int_max_str_digits\<close>). Anything else raises \<open>ValueError\<close>.
  \<^verbatim>\<open>str\<close> refuses an integer of more than 4300 digits in the same way; the
  integers it is applied to here, Telegram user ids and whole seconds of the clock, are
  far shorter, and \<open>str_int\<close> does not model the refusal.
\<close>

definition py_isspace :: "char \<Rightarrow> bool" where
  "py_isspace c = ((of_char c :: nat) \<in> set [9, 10, 11, 12, 13, 32, 133, 160])"

definition int_max_str_digits :: nat where
  "int_max_str_digits = 4300"

definition strip :: "string \<Rightarrow> string" where
  "strip s = rev (dropWhile py_isspace (rev (dropWhile py_isspace s)))"

definition is_digit :: "char \<Rightarrow> bool" where
  "is_digit c = (48 \<le> (of_char c :: nat) \<and> (of_char c :: nat) \<le> 57)"

definition digit_val :: "char \<Rightarrow> nat" where
  "digit_val c = of_char c - 48"

fun parse_digits :: "nat \<Rightarrow> string \<Rightarrow> nat option" where
  "parse_digits acc [] = Some acc"
| "parse_digits acc (c # cs) =
     (if is_digit c then parse_digits (10 * acc + digit_val c) cs
      else if c = CHR ''_'' \<and> cs \<noteq> [] \<and> is_digit (hd cs) then parse_digits acc cs
      else None)"

definition parse_unsigned :: "string \<Rightarrow> py_error + nat" where
  "parse_unsigned s =
     (if s \<noteq> [] \<and> is_digit (hd s) then
        (case parse_digits 0 s of
           None \<Rightarrow> Inl ValueError
         | Some n \<Rightarrow>
             (if length (filter is_digit s) > int_max_str_digits then Inl ValueError
              else Inr n))
      else Inl ValueError)"

definition py_int :: "string \<Rightarrow> py_error + int" where
  "py_int s =
     (let t = strip s in
      if t \<noteq> [] \<and> hd t = CHR ''-'' then
        (case parse_unsigned (tl t) of Inl e \<Rightarrow> Inl e | Inr n \<Rightarrow> Inr (- int n))
      else if t \<noteq> [] \<and> hd t = CHR ''+'' then
        (case parse_unsigned (tl t) of Inl e \<Rightarrow> Inl e | Inr n \<Rightarrow> Inr (int n))
      else
        (case parse_unsigned t of Inl e \<Rightarrow> Inl e | Inr n \<Rightarrow> Inr (int n)))"

text \<open>
  \<^verbatim>\<open>s.split(sep)\<close> for a one-character separator: the pieces between the
  separators, empty pieces included; the result is never empty.
\<close>

fun split_on :: "char \<Rightarrow> string \<Rightarrow> string list" where
  "split_on sep [] = [[]]"
| "split_on sep (c # cs) =
     (if c = sep then [] # split_on sep cs
      else (case split_on sep cs of
              [] \<Rightarrow> [[c]]
            | w # ws \<Rightarrow> (c # w) # ws))"

text \<open>\<^verbatim>\<open>int(x)\<close> for a float truncates towards zero.\<close>

definition py_trunc :: "real \<Rightarrow> int" where
  "py_trunc x = (if 0 \<le> x then \<lfloor>x\<rfloor> else \<lceil>x\<rceil>)"

text \<open>
  \<^verbatim>\<open>secrets.token_hex(n)\<close> draws \<open>n\<close> bytes from the operating system and
  writes each as two lower-case hexadecimal digits. The bytes drawn are an input of the
  model: \<open>rnd i\<close> is the \<open>i\<close>-th byte the call receives.
\<close>

type_synonym urandom = "nat \<Rightarrow> 8 word"

definition hexdigit :: "nat \<Rightarrow> char" where
  "hexdigit d = ''0123456789abcdef'' ! d"

definition byte_hex :: "8 word \<Rightarrow> string" where
  "byte_hex b = [hexdigit (unat b div 16), hexdigit (unat b mod 16)]"

definition token_hex :: "nat \<Rightarrow> urandom \<Rightarrow> string" where
  "token_hex n rnd = concat (map (\<lambda>i. byte_hex (rnd i)) [0..<n])"

text \<open>\<^verbatim>\<open>s.upper()\<close>, on ASCII.\<close>

definition upper_char :: "char \<Rightarrow> char" where
  "upper_char c =
     (case map_of (zip ''abcdefghijklmnopqrstuvwxyz'' ''ABCDEFGHIJKLMNOPQRSTUVWXYZ'') c of
        Some C \<Rightarrow> C
      | None \<Rightarrow> c)"

definition upper :: "string \<Rightarrow> string" where
  "upper s = map upper_char s"

definition generate_key_string :: "urandom \<Rightarrow> string" where
  "generate_key_string rnd = ''KVN-'' @ upper (token_hex 4 rnd)"

text \<open>
  Everything one run of a handler receives from outside the process: the answers of the
  Telegram API to \<^verbatim>\<open>get_chat_member\<close>; the bytes of the first and of the
  second \<^verbatim>\<open>secrets\<close> call; the first and second value of
  \<^verbatim>\<open>datetime.now()\<close>, a naive local date and time, counted in seconds of the
  wall clock; \<^verbatim>\<open>datetime.timestamp()\<close>, which turns a naive local date and time
  into seconds since the epoch by the rules of the local time zone, daylight saving
  included; and the first and second value of \<^verbatim>\<open>time.time()\<close>, seconds since
  the epoch.
\<close>

record world =
  get_chat_member :: telegram
  urandom_1 :: urandom
  urandom_2 :: urandom
  now_1 :: real
  now_2 :: real
  timestamp :: "real \<Rightarrow> real"
  clock_1 :: real
  clock_2 :: real

section \<open>The data file\<close>

text \<open>
  What \<^verbatim>\<open>load_data\<close> can meet on disk. \<open>NoFile\<close>:
  \<^verbatim>\<open>os.path.exists\<close> is false. \<open>OpenRaises e\<close>: the path exists and
  \<^verbatim>\<open>open\<close> raises \<open>e\<close> (the file was removed in between, or may not be
  read). \<open>LoadRaises e\<close>: the file opens and \<^verbatim>\<open>json.load\<close> raises
  \<open>e\<close> (\<open>JSONDecodeError\<close> for text that is not JSON,
  \<open>UnicodeDecodeError\<close> for bytes that are not UTF-8). \<open>Holds s\<close>: the file
  holds the JSON rendering of the snapshot \<open>s\<close>, which is what
  \<^verbatim>\<open>save_data\<close> writes.
\<close>

datatype data_file =
    NoFile
  | OpenRaises py_error
  | LoadRaises py_error
  | Holds snapshot

definition empty_snapshot :: snapshot where
  "empty_snapshot = \<lparr>users = [], pending = []\<rparr>"

text \<open>The handler \<^verbatim>\<open>except (json.JSONDecodeError, FileNotFoundError)\<close>.\<close>

definition caught_by_load :: "py_error \<Rightarrow> bool" where
  "caught_by_load e = (e = JSONDecodeError \<or> e = FileNotFoundError)"

definition load_data :: "data_file \<Rightarrow> py_error + snapshot" where
  "load_data f =
     (case f of
        NoFile \<Rightarrow> Inr empty_snapshot
      | OpenRaises e \<Rightarrow> (if caught_by_load e then Inr empty_snapshot else Inl e)
      | LoadRaises e \<Rightarrow> (if caught_by_load e then Inr empty_snapshot else Inl e)
      | Holds s \<Rightarrow> Inr s)"

definition save_data :: "snapshot \<Rightarrow> data_file" where
  "save_data data = Holds data"

definition ensure_user :: "string \<Rightarrow> string option \<Rightarrow> snapshot \<Rightarrow> snapshot" where
  "ensure_user uid uname data =
     (case map_of (users data) uid of
        None \<Rightarrow>
          data\<lparr>users := AList.update uid
            \<lparr>username = uname, manual_limit = None, keys_used = 0, keys = []\<rparr> (users data)\<rparr>
      | Some u \<Rightarrow>
          data\<lparr>users := AList.update uid (u\<lparr>username := uname\<rparr>) (users data)\<rparr>)"

section \<open>The limit of a user\<close>

definition counted_status :: "string \<Rightarrow> bool" where
  "counted_status st = (st \<in> set [''member'', ''administrator'', ''creator''])"

text \<open>
  Each membership check stands inside its own \<^verbatim>\<open>try ... except Exception\<close>:
  the bonus is added when the call returns a counted status; when the call raises, the
  exception is logged and the limit stays as it was.
\<close>

definition calculate_limit :: "config \<Rightarrow> telegram \<Rightarrow> int \<Rightarrow> user_record \<Rightarrow> int" where
  "calculate_limit cfg api uid user_data =
     (case manual_limit user_data of
        Some m \<Rightarrow> m
      | None \<Rightarrow>
          (let limit = 0;
               limit =
                 (if CHAT_ID_1 cfg \<noteq> 0 then
                    (case api (CHAT_ID_1 cfg) uid of
                       Inr st \<Rightarrow> (if counted_status st then limit + KEYS_PER_CHAT else limit)
                     | Inl e \<Rightarrow> limit)
                  else limit);
               limit =
                 (if CHAT_ID_2 cfg \<noteq> 0 then
                    (case api (CHAT_ID_2 cfg) uid of
                       Inr st \<Rightarrow> (if counted_status st then limit + KEYS_PER_CHAT else limit)
                     | Inl e \<Rightarrow> limit)
                  else limit)
           in if limit = 0 then 1 else limit))"

text \<open>Whether a membership check makes the user count as belonging to the chat.\<close>

definition belongs :: "py_error + string \<Rightarrow> bool" where
  "belongs r = (case r of Inr st \<Rightarrow> counted_status st | Inl e \<Rightarrow> False)"

section \<open>The handlers\<close>

text \<open>
  What a handler shows to the user; the texts of the messages are left out, the values
  they carry are kept. \<open>LimitExceeded limit used\<close>. \<open>KeyIssued\<close>: the credential,
  the naive local expiration date and time whose day the message prints, the number of
  keys the user now has, and the limit. \<open>KeyList\<close>: each credential with whether it is
  still valid. \<open>Silent\<close>: the handler sends nothing. Sending is taken to succeed; a
  handler whose send fails after \<^verbatim>\<open>save_data\<close> leaves the saved data file all
  the same.
\<close>

datatype reply =
    Welcome bool
  | LimitExceeded int int
  | KeyIssued string real int int
  | NoKeys
  | KeyList "(string \<times> bool) list"
  | NoRights
  | LimitSet string int
  | UserNotFound
  | Invoice string
  | PaymentDone int
  | Silent

text \<open>
  A handler runs on the data file and returns the data file it leaves and its reply, or
  the exception that escapes it. A handler that does not call \<^verbatim>\<open>save_data\<close>
  leaves the file as it found it, whatever it did to the dictionary in memory.
\<close>

type_synonym outcome = "py_error + (data_file \<times> reply)"

definition start_cmd :: "config \<Rightarrow> int \<Rightarrow> string option \<Rightarrow> data_file \<Rightarrow> outcome" where
  "start_cmd cfg from_id uname file =
     (case load_data file of
        Inl e \<Rightarrow> Inl e
      | Inr data \<Rightarrow>
          (let data = ensure_user (str_int from_id) uname data
           in Inr (save_data data, Welcome (from_id \<in> set (ADMINS cfg)))))"

text \<open>
  \<^verbatim>\<open>timedelta(days=30)\<close>, in seconds. The source adds it to the naive local
  \<^verbatim>\<open>datetime.now()\<close>, which is arithmetic of the wall clock, and only then
  takes the \<^verbatim>\<open>timestamp()\<close> of the sum.
\<close>

definition thirty_days :: real where
  "thirty_days = 30 * 86400"

definition get_key_handler ::
  "config \<Rightarrow> world \<Rightarrow> int \<Rightarrow> string option \<Rightarrow> data_file \<Rightarrow> outcome" where
  "get_key_handler cfg w from_id uname file =
     (case load_data file of
        Inl e \<Rightarrow> Inl e
      | Inr data \<Rightarrow>
          (let user_id_str = str_int from_id;
               data = ensure_user user_id_str uname data
           in case map_of (users data) user_id_str of
                None \<Rightarrow> Inl KeyError
              | Some user_record \<Rightarrow>
                  (let limit = calculate_limit cfg (get_chat_member w) from_id user_record;
                       used = int (length (keys user_record))
                   in if used \<ge> limit then Inr (file, LimitExceeded limit used)
                      else
                        (let new_key_value = generate_key_string (urandom_1 w);
                             expiration_date = now_1 w + thirty_days;
                             key_obj = \<lparr>id_k = upper (token_hex 3 (urandom_2 w)),
                                        key = new_key_value,
                                        valid_until = timestamp w expiration_date,
                                        created_at = timestamp w (now_2 w)\<rparr>;
                             new_keys = keys user_record @ [key_obj];
                             user_record = user_record\<lparr>keys := new_keys,
                                                        keys_used := int (length new_keys)\<rparr>;
                             data = data\<lparr>users := AList.update user_id_str user_record (users data)\<rparr>
                         in Inr (save_data data,
                                 KeyIssued new_key_value expiration_date
                                   (int (length (keys user_record))) limit)))))"

definition my_keys_handler ::
  "world \<Rightarrow> int \<Rightarrow> string option \<Rightarrow> data_file \<Rightarrow> outcome" where
  "my_keys_handler w from_id uname file =
     (case load_data file of
        Inl e \<Rightarrow> Inl e
      | Inr data \<Rightarrow>
          (let user_id_str = str_int from_id;
               data = ensure_user user_id_str uname data
           in case map_of (users data) user_id_str of
                None \<Rightarrow> Inl KeyError
              | Some user_record \<Rightarrow>
                  (if keys user_record = [] then Inr (file, NoKeys)
                   else
                     (let current_time = timestamp w (now_1 w)
                      in Inr (file,
                           KeyList (map (\<lambda>k. (key k, valid_until k > current_time))
                                      (keys user_record)))))))"

text \<open>
  The admin's inline keyboard: one button for each of the limits 1, 8, 16 and 100, whose
  callback data is \<^verbatim>\<open>f"set_lim_{target_user_id}_{lim}"\<close>.
\<close>

definition callback_data :: "string \<Rightarrow> int \<Rightarrow> string" where
  "callback_data target_user_id limv = ''set_lim_'' @ target_user_id @ ''_'' @ str_int limv"

definition get_admin_limits_keyboard :: "string \<Rightarrow> string list" where
  "get_admin_limits_keyboard target_user_id = map (callback_data target_user_id) [1, 8, 16, 100]"

text \<open>
  \<^verbatim>\<open>_, target_id, limit_val = callback.data.split("_")\<close> raises
  \<open>ValueError\<close> unless the split has exactly three pieces.
\<close>

definition set_limit_callback :: "config \<Rightarrow> int \<Rightarrow> string \<Rightarrow> data_file \<Rightarrow> outcome" where
  "set_limit_callback cfg from_id cb_data file =
     (if from_id \<notin> set (ADMINS cfg) then Inr (file, NoRights)
      else
        (case split_on CHR ''_'' cb_data of
           [u, target_id, limit_val] \<Rightarrow>
             (case py_int limit_val of
                Inl e \<Rightarrow> Inl e
              | Inr new_limit \<Rightarrow>
                  (case load_data file of
                     Inl e \<Rightarrow> Inl e
                   | Inr data \<Rightarrow>
                       (case map_of (users data) target_id of
                          Some u \<Rightarrow>
                            (let data = data\<lparr>users :=
                                   AList.update target_id (u\<lparr>manual_limit := Some new_limit\<rparr>)
                                     (users data)\<rparr>
                             in Inr (save_data data, LimitSet target_id new_limit))
                        | None \<Rightarrow> Inr (file, UserNotFound))))
         | _ \<Rightarrow> Inl ValueError))"

definition payment_comment :: "int \<Rightarrow> real \<Rightarrow> string" where
  "payment_comment from_id t = ''pay_'' @ str_int from_id @ ''_'' @ str_int (py_trunc t)"

definition buy_key_handler :: "world \<Rightarrow> int \<Rightarrow> data_file \<Rightarrow> outcome" where
  "buy_key_handler w from_id file =
     (let amount_ton = 0.5;
          comment = payment_comment from_id (clock_1 w)
      in case load_data file of
           Inl e \<Rightarrow> Inl e
         | Inr data \<Rightarrow>
             (let data = data\<lparr>pending := AList.update comment
                    \<lparr>user_id = str_int from_id, amount = amount_ton,
                     created_at_p = clock_2 w, status = ''waiting''\<rparr> (pending data)\<rparr>
              in Inr (save_data data, Invoice comment)))"

definition finalize_payment :: "config \<Rightarrow> world \<Rightarrow> string \<Rightarrow> data_file \<Rightarrow> outcome" where
  "finalize_payment cfg w comment_id file =
     (case load_data file of
        Inl e \<Rightarrow> Inl e
      | Inr data \<Rightarrow>
          (case map_of (pending data) comment_id of
             None \<Rightarrow> Inr (file, Silent)
           | Some info \<Rightarrow>
               (case map_of (users data) (user_id info) of
                  None \<Rightarrow> Inr (file, Silent)
                | Some u \<Rightarrow>
                    (case (case manual_limit u of
                             Some m \<Rightarrow> Inr m
                           | None \<Rightarrow>
                               (case py_int (user_id info) of
                                  Inl e \<Rightarrow> Inl e
                                | Inr n \<Rightarrow> Inr (calculate_limit cfg (get_chat_member w) n u))) of
                       Inl e \<Rightarrow> Inl e
                     | Inr current_manual \<Rightarrow>
                         (let data = data\<lparr>users :=
                                AList.update (user_id info)
                                  (u\<lparr>manual_limit := Some (current_manual + 1)\<rparr>) (users data)\<rparr>;
                              data = data\<lparr>pending := AList.delete comment_id (pending data)\<rparr>
                          in Inr (save_data data, PaymentDone (current_manual + 1)))))))"

text \<open>
  The requests the dispatcher routes to the handlers above, each with what the world
  answers while it runs; \<open>Finalize\<close> is the call of \<^verbatim>\<open>finalize_payment\<close>.
  An exception that escapes a handler is logged by the dispatcher and the bot goes on:
  the data file stays as the handler left it, which is as it found it, since no handler
  raises after \<^verbatim>\<open>save_data\<close>.
\<close>

datatype request =
    Start int "string option"
  | GetKey world int "string option"
  | MyKeys world int "string option"
  | SetLimit int string
  | BuyKey world int
  | Finalize world string

fun handle :: "config \<Rightarrow> request \<Rightarrow> data_file \<Rightarrow> outcome" where
  "handle cfg (Start from_id uname) file = start_cmd cfg from_id uname file"
| "handle cfg (GetKey w from_id uname) file = get_key_handler cfg w from_id uname file"
| "handle cfg (MyKeys w from_id uname) file = my_keys_handler w from_id uname file"
| "handle cfg (SetLimit from_id cb_data) file = set_limit_callback cfg from_id cb_data file"
| "handle cfg (BuyKey w from_id) file = buy_key_handler w from_id file"
| "handle cfg (Finalize w comment_id) file = finalize_payment cfg w comment_id file"

definition file_after :: "config \<Rightarrow> request \<Rightarrow> data_file \<Rightarrow> data_file" where
  "file_after cfg req file = (case handle cfg req file of Inl e \<Rightarrow> file | Inr (file', r) \<Rightarrow> file')"

fun run :: "config \<Rightarrow> request list \<Rightarrow> data_file \<Rightarrow> data_file" where
  "run cfg [] file = file"
| "run cfg (req # reqs) file = run cfg reqs (file_after cfg req file)"

section \<open>Observations, invariants and example inputs\<close>

text \<open>The value of a string of decimal digits.\<close>

definition digits_value :: "string \<Rightarrow> nat" where
  "digits_value s = foldl (\<lambda>a c. 10 * a + digit_val c) 0 s"

text \<open>
  The invariant of the data model: in every stored user record the counter
  \<open>keys_used\<close> is the length of the list \<open>keys\<close>. A data file that holds no
  snapshot has no record that could break it.
\<close>

definition record_inv :: "user_record \<Rightarrow> bool" where
  "record_inv u = (keys_used u = int (length (keys u)))"

definition store_inv :: "snapshot \<Rightarrow> bool" where
  "store_inv data = list_all (\<lambda>p. record_inv (snd p)) (users data)"

definition file_inv :: "data_file \<Rightarrow> bool" where
  "file_inv f = (case f of Holds data \<Rightarrow> store_inv data | _ \<Rightarrow> True)"

text \<open>
  What the data file says about one user: the record \<^verbatim>\<open>load_data\<close> yields for
  the user id, the keys in it and their number (none when there is no record), and the limit
  \<^verbatim>\<open>calculate_limit\<close> gives for it under the answers \<open>api\<close>; a user without a
  record is given the one \<^verbatim>\<open>ensure_user\<close> would create.
\<close>

definition stored_user :: "string \<Rightarrow> data_file \<Rightarrow> user_record option" where
  "stored_user uid f = (case load_data f of Inl e \<Rightarrow> None | Inr data \<Rightarrow> map_of (users data) uid)"

definition stored_keys :: "string \<Rightarrow> data_file \<Rightarrow> key_obj list" where
  "stored_keys uid f = (case stored_user uid f of None \<Rightarrow> [] | Some u \<Rightarrow> keys u)"

definition key_count :: "string \<Rightarrow> data_file \<Rightarrow> int" where
  "key_count uid f = (case stored_user uid f of None \<Rightarrow> 0 | Some u \<Rightarrow> int (length (keys u)))"

definition current_limit :: "config \<Rightarrow> telegram \<Rightarrow> int \<Rightarrow> data_file \<Rightarrow> int" where
  "current_limit cfg api from_id f =
     calculate_limit cfg api from_id
       (case stored_user (str_int from_id) f of
          None \<Rightarrow> \<lparr>username = None, manual_limit = None, keys_used = 0, keys = []\<rparr>
        | Some u \<Rightarrow> u)"

text \<open>
  The value of an upper-case hexadecimal digit, and the credentials of all keys in the
  data file, in the order of the users and of their keys.
\<close>

definition hex_value :: "char \<Rightarrow> nat" where
  "hex_value c = length (takeWhile (\<lambda>x. x \<noteq> c) ''0123456789ABCDEF'')"

definition all_credentials :: "data_file \<Rightarrow> string list" where
  "all_credentials f =
     (case load_data f of
        Inl e \<Rightarrow> []
      | Inr data \<Rightarrow> concat (map (\<lambda>p. map key (keys (snd p))) (users data)))"

text \<open>
  Example inputs: a configuration with one chat and the admin 1, and a world in which
  every membership check answers the status \<open>st\<close>, every random byte is \<open>b\<close>,
  every clock reads 0 and the local time zone is UTC.
\<close>

definition one_chat :: config where
  "one_chat = \<lparr>ADMINS = [1], CHAT_ID_1 = 10, CHAT_ID_2 = 0\<rparr>"

definition answers :: "string \<Rightarrow> 8 word \<Rightarrow> world" where
  "answers st b = \<lparr>get_chat_member = (\<lambda>c u. Inr st), urandom_1 = (\<lambda>i. b), urandom_2 = (\<lambda>i. b),
                   now_1 = 0, now_2 = 0, timestamp = (\<lambda>t. t), clock_1 = 0, clock_2 = 0\<rparr>"

section \<open>Facts about the string functions\<close>

lemma below_ten:
  "(d::nat) < 10 \<Longrightarrow>
     d = 0 \<or> d = 1 \<or> d = 2 \<or> d = 3 \<or> d = 4 \<or> d = 5 \<or> d = 6 \<or> d = 7 \<or> d = 8 \<or> d = 9"
  by arith

lemma is_digit_digit_char: "d < 10 \<Longrightarrow> is_digit (digit_char d)"
  by (drule below_ten) (auto simp: is_digit_def digit_char_def)

lemma digit_val_digit_char: "d < 10 \<Longrightarrow> digit_val (digit_char d) = d"
  by (drule below_ten) (auto simp: digit_val_def digit_char_def)

lemma is_digit_plain:
  "is_digit c \<Longrightarrow>
     c \<noteq> CHR ''_'' \<and> c \<noteq> CHR ''-'' \<and> c \<noteq> CHR ''+'' \<and> \<not> py_isspace c"
  by (auto simp: is_digit_def py_isspace_def)

lemma str_nat_digits: "list_all is_digit (str_nat n)"
  by (induction n rule: str_nat.induct) (subst str_nat.simps, simp add: is_digit_digit_char)

lemma str_nat_nonempty: "str_nat n \<noteq> []"
  by (subst str_nat.simps) simp

lemma digits_value_str_nat: "digits_value (str_nat n) = n"
  by (induction n rule: str_nat.induct)
     (subst str_nat.simps, simp add: digits_value_def digit_val_digit_char)

lemma parse_digits_all:
  "list_all is_digit s \<Longrightarrow>
     parse_digits acc s = Some (foldl (\<lambda>a c. 10 * a + digit_val c) acc s)"
  by (induction s arbitrary: acc) auto

lemma length_str_nat: "n < 10 ^ k \<Longrightarrow> 0 < k \<Longrightarrow> length (str_nat n) \<le> k"
proof (induction n arbitrary: k rule: str_nat.induct)
  case (1 n)
  show ?case
  proof (cases "n < 10")
    case True
    then show ?thesis
      using "1.prems" by (subst str_nat.simps) simp
  next
    case False
    obtain j where k: "k = Suc j"
      using "1.prems"(2) by (cases k) auto
    have "0 < j"
      using False "1.prems"(1) k by (cases j) auto
    moreover have "n div 10 < 10 ^ j"
      using "1.prems"(1) k by (simp add: less_mult_imp_div_less mult.commute)
    ultimately have "length (str_nat (n div 10)) \<le> j"
      using False by (intro "1.IH") simp_all
    then show ?thesis
      using False k by (subst str_nat.simps) simp
  qed
qed

lemma parse_unsigned_str_nat:
  assumes "length (str_nat n) \<le> int_max_str_digits"
  shows "parse_unsigned (str_nat n) = Inr n"
proof -
  have "is_digit (hd (str_nat n))"
    using str_nat_digits [of n] str_nat_nonempty [of n] by (cases "str_nat n") auto
  moreover have "parse_digits 0 (str_nat n) = Some n"
    using parse_digits_all [OF str_nat_digits, of 0 n] digits_value_str_nat [of n]
    by (simp add: digits_value_def)
  moreover have "filter is_digit (str_nat n) = str_nat n"
    using str_nat_digits [of n] by (simp add: list_all_iff)
  ultimately show ?thesis
    using assms by (simp add: parse_unsigned_def str_nat_nonempty)
qed

lemma strip_same:
  assumes "s \<noteq> []" and "\<not> py_isspace (hd s)" and "\<not> py_isspace (last s)"
  shows "strip s = s"
proof -
  have keep: "dropWhile P xs = xs" if "xs \<noteq> []" "\<not> P (hd xs)" for P and xs :: string
    using that by (cases xs) auto
  have "dropWhile py_isspace s = s"
    using assms by (simp add: keep)
  moreover have "dropWhile py_isspace (rev s) = rev s"
    using assms by (simp add: keep hd_rev)
  ultimately show ?thesis
    by (simp add: strip_def)
qed

lemma strip_str_nat: "strip (str_nat n) = str_nat n"
proof -
  have "list_all is_digit (str_nat n)"
    by (rule str_nat_digits)
  then have "\<not> py_isspace (hd (str_nat n))" "\<not> py_isspace (last (str_nat n))"
    using str_nat_nonempty [of n] is_digit_plain by (auto simp: list_all_iff)
  then show ?thesis
    by (simp add: strip_same str_nat_nonempty)
qed

text \<open>
  \<^verbatim>\<open>int(str(n)) == n\<close>: reading back the decimal rendering of an integer of at
  most 4300 digits, as every Telegram user id is.
\<close>

lemma py_int_str_int_digits:
  assumes "length (str_nat (nat \<bar>n\<bar>)) \<le> int_max_str_digits"
  shows "py_int (str_int n) = Inr n"
proof (cases "n < 0")
  case True
  have "strip (str_int n) = str_int n"
    using True str_nat_digits [of "nat (- n)"] str_nat_nonempty [of "nat (- n)"] is_digit_plain
    by (intro strip_same) (auto simp: str_int_def py_isspace_def list_all_iff)
  moreover have "parse_unsigned (str_nat (nat (- n))) = Inr (nat (- n))"
    using assms True by (intro parse_unsigned_str_nat) simp
  ultimately show ?thesis
    using True by (simp add: py_int_def str_int_def)
next
  case False
  have "hd (str_nat (nat n)) \<noteq> CHR ''-''" "hd (str_nat (nat n)) \<noteq> CHR ''+''"
    using str_nat_digits [of "nat n"] str_nat_nonempty [of "nat n"] is_digit_plain
    by (cases "str_nat (nat n)"; auto)+
  moreover have "parse_unsigned (str_nat (nat n)) = Inr (nat n)"
    using assms False by (intro parse_unsigned_str_nat) simp
  ultimately show ?thesis
    using False by (simp add: py_int_def str_int_def strip_str_nat)
qed

lemma py_int_str_int:
  assumes "\<bar>n\<bar> < 10 ^ k" and "0 < k" and "k \<le> int_max_str_digits"
  shows "py_int (str_int n) = Inr n"
proof -
  have "nat \<bar>n\<bar> < 10 ^ k"
    using assms(1) by (simp add: nat_less_iff)
  then have "length (str_nat (nat \<bar>n\<bar>)) \<le> k"
    using assms(2) by (rule length_str_nat)
  then show ?thesis
    using assms(3) by (intro py_int_str_int_digits) simp
qed

lemma str_nat_inject: "str_nat a = str_nat b \<longleftrightarrow> a = b"
  by (metis digits_value_str_nat)

lemma str_int_inject: "str_int a = str_int b \<longleftrightarrow> a = b"
proof
  assume eq: "str_int a = str_int b"
  have no_minus: "str_nat m \<noteq> CHR ''-'' # t" for m t
    using str_nat_digits [of m] is_digit_plain by (cases "str_nat m") auto
  show "a = b"
  proof (cases "a < 0"; cases "b < 0")
    assume "a < 0" "b < 0"
    with eq have "nat (- a) = nat (- b)"
      by (simp add: str_int_def str_nat_inject)
    with \<open>a < 0\<close> \<open>b < 0\<close> show ?thesis
      by simp
  next
    assume "a < 0" "\<not> b < 0"
    with eq no_minus [of "nat b" "str_nat (nat (- a))"] show ?thesis
      by (simp add: str_int_def)
  next
    assume "\<not> a < 0" "b < 0"
    with eq no_minus [of "nat a" "str_nat (nat (- b))"] show ?thesis
      by (simp add: str_int_def)
  next
    assume "\<not> a < 0" "\<not> b < 0"
    with eq have "nat a = nat b"
      by (simp add: str_int_def str_nat_inject)
    with \<open>\<not> a < 0\<close> \<open>\<not> b < 0\<close> show ?thesis
      by simp
  qed
qed simp

lemma str_int_5: "str_int 5 = ''5''"
  by (simp add: str_int_def str_nat.simps digit_char_def)

lemma py_int_5: "py_int ''5'' = Inr 5"
  by (simp add: py_int_def strip_def py_isspace_def parse_unsigned_def is_digit_def digit_val_def
      int_max_str_digits_def)

section \<open>Properties of the limit\<close>

lemma calculate_limit_auto:
  assumes "manual_limit u = None"
  shows "calculate_limit cfg api uid u =
     (let b1 = (if CHAT_ID_1 cfg \<noteq> 0 \<and> belongs (api (CHAT_ID_1 cfg) uid) then KEYS_PER_CHAT else 0);
          b2 = (if CHAT_ID_2 cfg \<noteq> 0 \<and> belongs (api (CHAT_ID_2 cfg) uid) then KEYS_PER_CHAT else 0)
      in if b1 + b2 = 0 then 1 else b1 + b2)"
  using assms
  by (simp add: calculate_limit_def belongs_def Let_def KEYS_PER_CHAT_def split: sum.split)

lemma calculate_limit_auto_pos:
  "manual_limit u = None \<Longrightarrow> 1 \<le> calculate_limit cfg api uid u"
  by (simp add: calculate_limit_auto Let_def KEYS_PER_CHAT_def)

text \<open>
  C3. A user record whose \<open>manual_limit\<close> is set to \<open>M\<close> has limit \<open>M\<close>, whatever
  the configuration and whatever the membership checks would answer: the result is the
  same for every answer of the Telegram API.
\<close>

theorem calculate_limit_manual:
  "manual_limit u = Some M \<Longrightarrow> calculate_limit cfg api uid u = M"
  by (simp add: calculate_limit_def)

theorem calculate_limit_manual_witness:
  "manual_limit \<lparr>username = None, manual_limit = Some 8, keys_used = 0, keys = []\<rparr> = Some 8
   \<and> calculate_limit \<lparr>ADMINS = [], CHAT_ID_1 = 10, CHAT_ID_2 = 20\<rparr> (\<lambda>c u. Inr ''member'') 5
        \<lparr>username = None, manual_limit = Some 8, keys_used = 0, keys = []\<rparr> = 8
   \<and> calculate_limit \<lparr>ADMINS = [], CHAT_ID_1 = 10, CHAT_ID_2 = 20\<rparr> (\<lambda>c u. Inl TelegramError) 5
        \<lparr>username = None, manual_limit = Some 8, keys_used = 0, keys = []\<rparr> = 8"
  using calculate_limit_manual
      [of "\<lparr>username = None, manual_limit = Some 8, keys_used = 0, keys = []\<rparr>" 8
          "\<lparr>ADMINS = [], CHAT_ID_1 = 10, CHAT_ID_2 = 20\<rparr>" "\<lambda>c u. Inr ''member''" 5]
    calculate_limit_manual
      [of "\<lparr>username = None, manual_limit = Some 8, keys_used = 0, keys = []\<rparr>" 8
          "\<lparr>ADMINS = [], CHAT_ID_1 = 10, CHAT_ID_2 = 20\<rparr>" "\<lambda>c u. Inl TelegramError" 5]
  by simp

text \<open>
  C4. For a user record whose \<open>manual_limit\<close> is unset: when every configured chat
  (chat id other than 0) answers with a status that does not count, or raises, the limit
  is the baseline 1. A check that raises counts as a check that answers ``left'': the
  limit is the one computed with every failure replaced by that answer, so the remaining
  chat is still asked; when the first check raises and the second one answers
  ``member'', the limit is \<open>KEYS_PER_CHAT\<close>.
\<close>

theorem calculate_limit_baseline:
  "manual_limit u = None \<Longrightarrow>
     (((CHAT_ID_1 cfg \<noteq> 0 \<longrightarrow> \<not> belongs (api (CHAT_ID_1 cfg) uid)) \<and>
       (CHAT_ID_2 cfg \<noteq> 0 \<longrightarrow> \<not> belongs (api (CHAT_ID_2 cfg) uid)))
        \<longrightarrow> calculate_limit cfg api uid u = 1)
   \<and> calculate_limit cfg api uid u =
       calculate_limit cfg (\<lambda>c v. case api c v of Inl e \<Rightarrow> Inr ''left'' | Inr st \<Rightarrow> Inr st) uid u
   \<and> ((CHAT_ID_1 cfg \<noteq> 0 \<and> CHAT_ID_2 cfg \<noteq> 0 \<and> api (CHAT_ID_1 cfg) uid = Inl e1 \<and>
        api (CHAT_ID_2 cfg) uid = Inr ''member'')
        \<longrightarrow> calculate_limit cfg api uid u = KEYS_PER_CHAT)"
proof (intro conjI impI)
  assume m: "manual_limit u = None"
  {
    assume "(CHAT_ID_1 cfg \<noteq> 0 \<longrightarrow> \<not> belongs (api (CHAT_ID_1 cfg) uid)) \<and>
            (CHAT_ID_2 cfg \<noteq> 0 \<longrightarrow> \<not> belongs (api (CHAT_ID_2 cfg) uid))"
    with m show "calculate_limit cfg api uid u = 1"
      by (auto simp: calculate_limit_auto Let_def)
  }
  have same: "belongs (case api c uid of Inl e \<Rightarrow> Inr ''left'' | Inr st \<Rightarrow> Inr st) = belongs (api c uid)"
    for c
    by (simp add: belongs_def counted_status_def split: sum.split)
  from m show "calculate_limit cfg api uid u =
      calculate_limit cfg (\<lambda>c v. case api c v of Inl e \<Rightarrow> Inr ''left'' | Inr st \<Rightarrow> Inr st) uid u"
    by (simp add: calculate_limit_auto same)
  {
    assume "CHAT_ID_1 cfg \<noteq> 0 \<and> CHAT_ID_2 cfg \<noteq> 0 \<and> api (CHAT_ID_1 cfg) uid = Inl e1 \<and>
            api (CHAT_ID_2 cfg) uid = Inr ''member''"
    with m show "calculate_limit cfg api uid u = KEYS_PER_CHAT"
      by (simp add: calculate_limit_auto belongs_def counted_status_def KEYS_PER_CHAT_def)
  }
qed

theorem calculate_limit_baseline_witness:
  "manual_limit \<lparr>username = None, manual_limit = None, keys_used = 0, keys = []\<rparr> = None
   \<and> \<not> belongs ((\<lambda>c u. if c = 10 then Inl TelegramError else Inr ''left'') 10 5)
   \<and> \<not> belongs ((\<lambda>c u. if c = 10 then Inl TelegramError else Inr ''left'') 20 5)
   \<and> calculate_limit \<lparr>ADMINS = [], CHAT_ID_1 = 10, CHAT_ID_2 = 20\<rparr>
        (\<lambda>c u. if c = 10 then Inl TelegramError else Inr ''left'') 5
        \<lparr>username = None, manual_limit = None, keys_used = 0, keys = []\<rparr> = 1
   \<and> calculate_limit \<lparr>ADMINS = [], CHAT_ID_1 = 10, CHAT_ID_2 = 20\<rparr>
        (\<lambda>c u. if c = 10 then Inl TelegramError else Inr ''member'') 5
        \<lparr>username = None, manual_limit = None, keys_used = 0, keys = []\<rparr> = 3"
  using calculate_limit_baseline
      [of "\<lparr>username = None, manual_limit = None, keys_used = 0, keys = []\<rparr>"
          "\<lparr>ADMINS = [], CHAT_ID_1 = 10, CHAT_ID_2 = 20\<rparr>"
          "\<lambda>c u. if c = 10 then Inl TelegramError else Inr ''left''" 5 TelegramError]
    calculate_limit_baseline
      [of "\<lparr>username = None, manual_limit = None, keys_used = 0, keys = []\<rparr>"
          "\<lparr>ADMINS = [], CHAT_ID_1 = 10, CHAT_ID_2 = 20\<rparr>"
          "\<lambda>c u. if c = 10 then Inl TelegramError else Inr ''member''" 5 TelegramError]
  by (simp add: belongs_def counted_status_def KEYS_PER_CHAT_def)

section \<open>Loading the data file\<close>

lemma load_data_default:
  "load_data NoFile = Inr empty_snapshot"
  "load_data (OpenRaises FileNotFoundError) = Inr empty_snapshot"
  "load_data (LoadRaises JSONDecodeError) = Inr empty_snapshot"
  by (simp_all add: load_data_def caught_by_load_def)

lemma load_data_raises_iff:
  "(\<exists>e. load_data f = Inl e) \<longleftrightarrow>
     (\<exists>e. (f = OpenRaises e \<or> f = LoadRaises e) \<and> e \<noteq> JSONDecodeError \<and> e \<noteq> FileNotFoundError)"
  by (cases f) (auto simp: load_data_def caught_by_load_def)

text \<open>
  C9. \<^verbatim>\<open>load_data\<close> on a data file whose bytes are not UTF-8: the
  \<open>UnicodeDecodeError\<close> of \<^verbatim>\<open>json.load\<close> is not among the two exceptions
  the function catches and reaches the caller; no default snapshot is returned.
\<close>

theorem load_data_undecodable_raises:
  "load_data (LoadRaises UnicodeDecodeError) = Inl UnicodeDecodeError"
  by (simp add: load_data_def caught_by_load_def)

section \<open>Reconciling a payment\<close>

text \<open>
  C10. When the comment is pending and the user id it records has no user record,
  \<^verbatim>\<open>finalize_payment\<close> does nothing: the data file stays as it was (the
  pending entry is still there, no limit changes, \<^verbatim>\<open>save_data\<close> is not
  called) and no message is sent.
\<close>

theorem finalize_payment_unknown_payer:
  "load_data file = Inr data \<Longrightarrow>
   map_of (pending data) ref = Some info \<Longrightarrow>
   map_of (users data) (user_id info) = None \<Longrightarrow>
   finalize_payment cfg w ref file = Inr (file, Silent)"
  by (simp add: finalize_payment_def)

theorem finalize_payment_unknown_payer_witness:
  "load_data (Holds \<lparr>users = [], pending = [(''pay_5_100'',
       \<lparr>user_id = ''5'', amount = 0.5, created_at_p = 100, status = ''waiting''\<rparr>)]\<rparr>)
     = Inr \<lparr>users = [], pending = [(''pay_5_100'',
       \<lparr>user_id = ''5'', amount = 0.5, created_at_p = 100, status = ''waiting''\<rparr>)]\<rparr>
   \<and> map_of (pending \<lparr>users = [], pending = [(''pay_5_100'',
       \<lparr>user_id = ''5'', amount = 0.5, created_at_p = 100, status = ''waiting''\<rparr>)]\<rparr>) ''pay_5_100''
     = Some \<lparr>user_id = ''5'', amount = 0.5, created_at_p = 100, status = ''waiting''\<rparr>
   \<and> map_of (users \<lparr>users = [], pending = [(''pay_5_100'',
       \<lparr>user_id = ''5'', amount = 0.5, created_at_p = 100, status = ''waiting''\<rparr>)]\<rparr>) ''5'' = None
   \<and> finalize_payment \<lparr>ADMINS = [], CHAT_ID_1 = 0, CHAT_ID_2 = 0\<rparr>
        \<lparr>get_chat_member = (\<lambda>c u. Inl TelegramError), urandom_1 = (\<lambda>i. 0),
         urandom_2 = (\<lambda>i. 0), now_1 = 0, now_2 = 0, timestamp = (\<lambda>t. t),
         clock_1 = 0, clock_2 = 0\<rparr> ''pay_5_100''
        (Holds \<lparr>users = [], pending = [(''pay_5_100'',
           \<lparr>user_id = ''5'', amount = 0.5, created_at_p = 100, status = ''waiting''\<rparr>)]\<rparr>)
     = Inr (Holds \<lparr>users = [], pending = [(''pay_5_100'',
           \<lparr>user_id = ''5'', amount = 0.5, created_at_p = 100, status = ''waiting''\<rparr>)]\<rparr>, Silent)"
  using finalize_payment_unknown_payer
      [of "Holds \<lparr>users = [], pending = [(''pay_5_100'',
             \<lparr>user_id = ''5'', amount = 0.5, created_at_p = 100, status = ''waiting''\<rparr>)]\<rparr>"
          "\<lparr>users = [], pending = [(''pay_5_100'',
             \<lparr>user_id = ''5'', amount = 0.5, created_at_p = 100, status = ''waiting''\<rparr>)]\<rparr>"
          "''pay_5_100''"
          "\<lparr>user_id = ''5'', amount = 0.5, created_at_p = 100, status = ''waiting''\<rparr>"
          "\<lparr>ADMINS = [], CHAT_ID_1 = 0, CHAT_ID_2 = 0\<rparr>"
          "\<lparr>get_chat_member = (\<lambda>c u. Inl TelegramError), urandom_1 = (\<lambda>i. 0),
            urandom_2 = (\<lambda>i. 0), now_1 = 0, now_2 = 0, timestamp = (\<lambda>t. t),
         clock_1 = 0, clock_2 = 0\<rparr>"]
  by (simp add: load_data_def)

text \<open>
  C2, as the code has it. When the comment is pending and the user id it records has a
  user record, and either the record has a \<open>manual_limit\<close> or the user id reads as an
  integer (the source calls \<^verbatim>\<open>int(user_id)\<close> when there is none), the first
  call of \<^verbatim>\<open>finalize_payment\<close> sets \<open>manual_limit\<close> to the base plus one,
  where the base is the \<open>manual_limit\<close> the record has, or, when it has none, the
  limit \<^verbatim>\<open>calculate_limit\<close> computes; it removes the pending entry, leaves every
  other user and every other pending entry alone, saves, and reports the new limit. A
  second call with the same comment finds nothing pending: it leaves the file as it is
  and sends nothing.
\<close>

theorem finalize_payment_once:
  "load_data file = Inr data \<Longrightarrow>
   map_of (pending data) ref = Some info \<Longrightarrow>
   map_of (users data) (user_id info) = Some u \<Longrightarrow>
   (manual_limit u = None \<longrightarrow> py_int (user_id info) = Inr n) \<Longrightarrow>
   (let base = (case manual_limit u of
                  Some m \<Rightarrow> m
                | None \<Rightarrow> calculate_limit cfg (get_chat_member w) n u);
        data' = data\<lparr>users := AList.update (user_id info)
                         (u\<lparr>manual_limit := Some (base + 1)\<rparr>) (users data),
                      pending := AList.delete ref (pending data)\<rparr>
    in finalize_payment cfg w ref file = Inr (Holds data', PaymentDone (base + 1))
       \<and> map_of (users data') (user_id info) = Some (u\<lparr>manual_limit := Some (base + 1)\<rparr>)
       \<and> (\<forall>other. other \<noteq> user_id info \<longrightarrow> map_of (users data') other = map_of (users data) other)
       \<and> map_of (pending data') ref = None
       \<and> (\<forall>other. other \<noteq> ref \<longrightarrow> map_of (pending data') other = map_of (pending data) other)
       \<and> finalize_payment cfg w' ref (Holds data') = Inr (Holds data', Silent))"
  by (cases "manual_limit u")
     (simp_all add: finalize_payment_def Let_def load_data_def save_data_def
        update_conv' delete_conv')

theorem finalize_payment_once_witness:
  "load_data (Holds \<lparr>users = [(''5'', \<lparr>username = None, manual_limit = None, keys_used = 0, keys = []\<rparr>)],
                    pending = [(''pay_5_100'', \<lparr>user_id = ''5'', amount = 0.5, created_at_p = 100, status = ''waiting''\<rparr>)]\<rparr>)
     = Inr \<lparr>users = [(''5'', \<lparr>username = None, manual_limit = None, keys_used = 0, keys = []\<rparr>)],
                    pending = [(''pay_5_100'', \<lparr>user_id = ''5'', amount = 0.5, created_at_p = 100, status = ''waiting''\<rparr>)]\<rparr>
   \<and> py_int ''5'' = Inr 5
   \<and> finalize_payment \<lparr>ADMINS = [], CHAT_ID_1 = 10, CHAT_ID_2 = 0\<rparr>
        \<lparr>get_chat_member = (\<lambda>c u. Inr ''member''), urandom_1 = (\<lambda>i. 0),
         urandom_2 = (\<lambda>i. 0), now_1 = 0, now_2 = 0, timestamp = (\<lambda>t. t),
         clock_1 = 0, clock_2 = 0\<rparr> ''pay_5_100''
        (Holds \<lparr>users = [(''5'', \<lparr>username = None, manual_limit = None, keys_used = 0, keys = []\<rparr>)],
                    pending = [(''pay_5_100'', \<lparr>user_id = ''5'', amount = 0.5, created_at_p = 100, status = ''waiting''\<rparr>)]\<rparr>)
     = Inr (Holds \<lparr>users = [(''5'', \<lparr>username = None, manual_limit = Some 4, keys_used = 0, keys = []\<rparr>)],
                    pending = []\<rparr>, PaymentDone 4)
   \<and> finalize_payment \<lparr>ADMINS = [], CHAT_ID_1 = 10, CHAT_ID_2 = 0\<rparr>
        \<lparr>get_chat_member = (\<lambda>c u. Inr ''member''), urandom_1 = (\<lambda>i. 0),
         urandom_2 = (\<lambda>i. 0), now_1 = 0, now_2 = 0, timestamp = (\<lambda>t. t),
         clock_1 = 0, clock_2 = 0\<rparr> ''pay_5_100''
        (Holds \<lparr>users = [(''5'', \<lparr>username = None, manual_limit = Some 4, keys_used = 0, keys = []\<rparr>)],
                    pending = []\<rparr>)
     = Inr (Holds \<lparr>users = [(''5'', \<lparr>username = None, manual_limit = Some 4, keys_used = 0, keys = []\<rparr>)],
                    pending = []\<rparr>, Silent)"
  using finalize_payment_once
    [of "Holds \<lparr>users = [(''5'', \<lparr>username = None, manual_limit = None, keys_used = 0, keys = []\<rparr>)],
                    pending = [(''pay_5_100'', \<lparr>user_id = ''5'', amount = 0.5, created_at_p = 100, status = ''waiting''\<rparr>)]\<rparr>"
        "\<lparr>users = [(''5'', \<lparr>username = None, manual_limit = None, keys_used = 0, keys = []\<rparr>)],
                    pending = [(''pay_5_100'', \<lparr>user_id = ''5'', amount = 0.5, created_at_p = 100, status = ''waiting''\<rparr>)]\<rparr>"
        "''pay_5_100''"
        "\<lparr>user_id = ''5'', amount = 0.5, created_at_p = 100, status = ''waiting''\<rparr>"
        "\<lparr>username = None, manual_limit = None, keys_used = 0, keys = []\<rparr>"
        5
        "\<lparr>ADMINS = [], CHAT_ID_1 = 10, CHAT_ID_2 = 0\<rparr>"
        "\<lparr>get_chat_member = (\<lambda>c u. Inr ''member''), urandom_1 = (\<lambda>i. 0),
         urandom_2 = (\<lambda>i. 0), now_1 = 0, now_2 = 0, timestamp = (\<lambda>t. t),
         clock_1 = 0, clock_2 = 0\<rparr>"
        "\<lparr>get_chat_member = (\<lambda>c u. Inr ''member''), urandom_1 = (\<lambda>i. 0),
         urandom_2 = (\<lambda>i. 0), now_1 = 0, now_2 = 0, timestamp = (\<lambda>t. t),
         clock_1 = 0, clock_2 = 0\<rparr>"]
  by (simp add: load_data_def py_int_5 Let_def calculate_limit_def counted_status_def
        KEYS_PER_CHAT_def AList.delete_eq)

text \<open>
  A pending payment whose user id is not the decimal rendering of an integer, with a
  user record that has no \<open>manual_limit\<close>: \<^verbatim>\<open>int(user_id)\<close> raises
  \<open>ValueError\<close>, the call does not succeed, and nothing is saved. The bot itself
  writes only user ids that are the \<^verbatim>\<open>str\<close> of a Telegram id, which read back
  (lemma \<open>py_int_str_int\<close>).
\<close>

theorem finalize_payment_unreadable_payer_counterexample:
  "map_of (pending \<lparr>users = [(''abc'', \<lparr>username = None, manual_limit = None, keys_used = 0, keys = []\<rparr>)],
                    pending = [(''pay_abc_100'',
                      \<lparr>user_id = ''abc'', amount = 0.5, created_at_p = 100, status = ''waiting''\<rparr>)]\<rparr>)
       ''pay_abc_100''
     = Some \<lparr>user_id = ''abc'', amount = 0.5, created_at_p = 100, status = ''waiting''\<rparr>
   \<and> map_of (users \<lparr>users = [(''abc'', \<lparr>username = None, manual_limit = None, keys_used = 0, keys = []\<rparr>)],
                    pending = [(''pay_abc_100'',
                      \<lparr>user_id = ''abc'', amount = 0.5, created_at_p = 100, status = ''waiting''\<rparr>)]\<rparr>)
       ''abc''
     = Some \<lparr>username = None, manual_limit = None, keys_used = 0, keys = []\<rparr>
   \<and> finalize_payment one_chat (answers ''member'' 0) ''pay_abc_100''
       (Holds \<lparr>users = [(''abc'', \<lparr>username = None, manual_limit = None, keys_used = 0, keys = []\<rparr>)],
               pending = [(''pay_abc_100'',
                 \<lparr>user_id = ''abc'', amount = 0.5, created_at_p = 100, status = ''waiting''\<rparr>)]\<rparr>)
     = Inl ValueError"
proof -
  have "py_int ''abc'' = Inl ValueError"
    by (simp add: py_int_def strip_def py_isspace_def parse_unsigned_def is_digit_def)
  then show ?thesis
    by (simp add: finalize_payment_def load_data_def)
qed

section \<open>The admin sets a limit\<close>

lemma str_int_8: "str_int 8 = ''8''"
  by (simp add: str_int_def str_nat.simps digit_char_def)

lemma split_on_nonempty: "split_on sep s \<noteq> []"
  by (induction s) (auto split: list.split)

lemma split_on_append:
  "split_on sep (a @ sep # b) = split_on sep a @ split_on sep b"
proof (induction a)
  case Nil
  show ?case by simp
next
  case (Cons x a)
  obtain p ps where "split_on sep a = p # ps"
    using split_on_nonempty [of sep a] by (cases "split_on sep a") auto
  with Cons show ?case by simp
qed

lemma length_split_on: "1 \<le> length (split_on sep s)"
  using split_on_nonempty [of sep s] by (cases "split_on sep s") auto

lemma split_on_callback_data:
  "split_on CHR ''_'' (callback_data target limv) =
     ''set'' # ''lim'' # split_on CHR ''_'' target @ split_on CHR ''_'' (str_int limv)"
  by (simp add: callback_data_def split_on_append)

lemma callback_data_four_pieces:
  "4 \<le> length (split_on CHR ''_'' (callback_data target limv))"
  using length_split_on [of "CHR ''_''" target] length_split_on [of "CHR ''_''" "str_int limv"]
  by (simp add: split_on_callback_data)

lemma unpack_three_fails:
  "4 \<le> length ps \<Longrightarrow>
     (case ps of [u, target_id, limit_val] \<Rightarrow> f target_id limit_val | _ \<Rightarrow> Inl ValueError) = Inl ValueError"
  by (auto split: list.split)

lemma set_limit_callback_sets_only_lim:
  "set_limit_callback cfg from_id (''set_lim_'' @ rest) file = Inr (file', LimitSet target new_limit)
     \<Longrightarrow> target = ''lim''"
  by (auto simp: set_limit_callback_def Let_def save_data_def
           split: if_splits list.splits sum.splits option.splits)

text \<open>
  C7. The admin presses a button of the keyboard \<^verbatim>\<open>get_admin_limits_keyboard\<close>
  built for a target user. The callback data \<^verbatim>\<open>set_lim_<target>_<limit>\<close> splits
  at its underscores into four pieces or more, the unpacking into three names raises
  \<open>ValueError\<close>, and the handler ends before it loads the data file: no
  \<open>manual_limit\<close> is written and nothing is saved, for every target user, every limit
  of the keyboard and every data file.
\<close>

theorem set_limit_callback_keyboard_raises:
  "from_id \<in> set (ADMINS cfg) \<Longrightarrow>
   cb \<in> set (get_admin_limits_keyboard target) \<Longrightarrow>
   set_limit_callback cfg from_id cb file = Inl ValueError"
proof -
  assume adm: "from_id \<in> set (ADMINS cfg)" and cb: "cb \<in> set (get_admin_limits_keyboard target)"
  from cb obtain limv where "cb = callback_data target limv"
    by (auto simp: get_admin_limits_keyboard_def)
  then have "4 \<le> length (split_on CHR ''_'' cb)"
    by (simp add: callback_data_four_pieces)
  then show ?thesis
    using adm unfolding set_limit_callback_def
    by (simp add: unpack_three_fails)
qed

theorem set_limit_callback_keyboard_raises_witness:
  "1 \<in> set (ADMINS \<lparr>ADMINS = [1], CHAT_ID_1 = 0, CHAT_ID_2 = 0\<rparr>)
   \<and> ''set_lim_5_8'' \<in> set (get_admin_limits_keyboard ''5'')
   \<and> map_of (users \<lparr>users = [(''5'', \<lparr>username = None, manual_limit = None, keys_used = 0, keys = []\<rparr>)],
                     pending = []\<rparr>) ''5''
        = Some \<lparr>username = None, manual_limit = None, keys_used = 0, keys = []\<rparr>
   \<and> set_limit_callback \<lparr>ADMINS = [1], CHAT_ID_1 = 0, CHAT_ID_2 = 0\<rparr> 1 ''set_lim_5_8''
        (Holds \<lparr>users = [(''5'', \<lparr>username = None, manual_limit = None, keys_used = 0, keys = []\<rparr>)],
                pending = []\<rparr>) = Inl ValueError"
proof -
  have k: "''set_lim_5_8'' \<in> set (get_admin_limits_keyboard ''5'')"
    by (simp add: get_admin_limits_keyboard_def callback_data_def str_int_8)
  have a: "1 \<in> set (ADMINS \<lparr>ADMINS = [1], CHAT_ID_1 = 0, CHAT_ID_2 = 0\<rparr>)"
    by simp
  show ?thesis
    using k a set_limit_callback_keyboard_raises [OF a k] by simp
qed

section \<open>The counter of keys\<close>

lemma list_all_update:
  "list_all (\<lambda>p. Q (snd p)) al \<Longrightarrow> Q v \<Longrightarrow> list_all (\<lambda>p. Q (snd p)) (AList.update k v al)"
  by (induction al) auto

lemma list_all_lookup:
  "list_all (\<lambda>p. Q (snd p)) al \<Longrightarrow> map_of al k = Some v \<Longrightarrow> Q v"
  by (induction al) (auto split: if_splits)

lemma store_inv_loaded: "file_inv file \<Longrightarrow> load_data file = Inr data \<Longrightarrow> store_inv data"
  by (cases "file") (auto simp: file_inv_def load_data_def empty_snapshot_def store_inv_def split: if_splits)

lemma store_inv_ensure_user: "store_inv data \<Longrightarrow> store_inv (ensure_user uid uname data)"
  by (auto simp: store_inv_def ensure_user_def record_inv_def
      intro!: list_all_update dest: list_all_lookup split: option.split)

lemma store_inv_set_user:
  "store_inv data \<Longrightarrow> record_inv u \<Longrightarrow> store_inv (data\<lparr>users := AList.update uid u (users data)\<rparr>)"
  by (simp add: store_inv_def list_all_update)

lemma store_inv_lookup: "store_inv data \<Longrightarrow> map_of (users data) uid = Some u \<Longrightarrow> record_inv u"
  unfolding store_inv_def by (rule list_all_lookup)

lemma store_inv_pending: "store_inv (data\<lparr>pending := p\<rparr>) = store_inv data"
  by (simp add: store_inv_def)

lemma handler_loads:
  "start_cmd cfg from_id uname file = Inr (file', r) \<Longrightarrow> \<exists>data. load_data file = Inr data"
  "get_key_handler cfg w from_id uname file = Inr (file', r) \<Longrightarrow> \<exists>data. load_data file = Inr data"
  "buy_key_handler w from_id file = Inr (file', r) \<Longrightarrow> \<exists>data. load_data file = Inr data"
  by (auto simp: start_cmd_def get_key_handler_def buy_key_handler_def Let_def split: sum.splits)

lemma start_cmd_inv:
  assumes "file_inv file" and "start_cmd cfg from_id uname file = Inr (file', r)"
  shows "file_inv file'"
proof -
  from assms(2) obtain data where ld: "load_data file = Inr data"
    by (auto dest: handler_loads)
  have "store_inv data"
    using assms(1) ld by (rule store_inv_loaded)
  then show ?thesis
    using assms(2) ld
    by (auto simp: start_cmd_def save_data_def file_inv_def Let_def store_inv_ensure_user)
qed

lemma get_key_handler_inv:
  assumes "file_inv file" and "get_key_handler cfg w from_id uname file = Inr (file', r)"
  shows "file_inv file'"
proof -
  from assms(2) obtain data where ld: "load_data file = Inr data"
    by (auto dest: handler_loads)
  define data1 where "data1 = ensure_user (str_int from_id) uname data"
  have inv1: "store_inv data1"
    using assms(1) ld by (simp add: data1_def store_inv_ensure_user store_inv_loaded)
  from assms(2) ld obtain u where u: "map_of (users data1) (str_int from_id) = Some u"
    by (auto simp: get_key_handler_def Let_def data1_def split: option.splits)
  show ?thesis
  proof (cases "calculate_limit cfg (get_chat_member w) from_id u \<le> int (length (keys u))")
    case True
    with assms(2) ld u have "file' = file"
      by (simp add: get_key_handler_def Let_def data1_def)
    with assms(1) show ?thesis by simp
  next
    case False
    with assms(2) ld u obtain k where
      "file' = Holds (data1\<lparr>users := AList.update (str_int from_id)
          (u\<lparr>keys := keys u @ [k], keys_used := int (length (keys u @ [k]))\<rparr>) (users data1)\<rparr>)"
      by (auto simp: get_key_handler_def Let_def data1_def save_data_def)
    then show ?thesis
      using inv1 by (simp add: file_inv_def store_inv_set_user record_inv_def)
  qed
qed

lemma my_keys_handler_same:
  "my_keys_handler w from_id uname file = Inr (file', r) \<Longrightarrow> file' = file"
  by (auto simp: my_keys_handler_def Let_def split: sum.splits option.splits if_splits)

lemma set_limit_callback_inv:
  assumes "file_inv file" and "set_limit_callback cfg from_id cb file = Inr (file', r)"
  shows "file_inv file'"
proof (cases "file' = file")
  case True
  with assms(1) show ?thesis by simp
next
  case False
  with assms(2) obtain data target u new_limit where
    ld: "load_data file = Inr data" and u: "map_of (users data) target = Some u" and
    f: "file' = Holds (data\<lparr>users := AList.update target (u\<lparr>manual_limit := Some new_limit\<rparr>) (users data)\<rparr>)"
    by (auto simp: set_limit_callback_def save_data_def Let_def
        split: if_splits list.splits sum.splits option.splits)
  have inv: "store_inv data"
    using assms(1) ld by (rule store_inv_loaded)
  then have "record_inv u"
    using u by (rule store_inv_lookup)
  then show ?thesis
    using inv f by (simp add: file_inv_def store_inv_set_user record_inv_def)
qed

lemma buy_key_handler_inv:
  assumes "file_inv file" and "buy_key_handler w from_id file = Inr (file', r)"
  shows "file_inv file'"
proof -
  from assms(2) obtain data where ld: "load_data file = Inr data"
    by (auto dest: handler_loads)
  have "store_inv data"
    using assms(1) ld by (rule store_inv_loaded)
  then show ?thesis
    using assms(2) ld
    by (auto simp: buy_key_handler_def save_data_def file_inv_def Let_def store_inv_pending)
qed

lemma finalize_payment_inv:
  assumes "file_inv file" and "finalize_payment cfg w ref file = Inr (file', r)"
  shows "file_inv file'"
proof (cases "file' = file")
  case True
  with assms(1) show ?thesis by simp
next
  case False
  with assms(2) obtain data uid u new_limit where
    ld: "load_data file = Inr data" and u: "map_of (users data) uid = Some u" and
    f: "file' = Holds (data\<lparr>users := AList.update uid (u\<lparr>manual_limit := Some new_limit\<rparr>) (users data),
                             pending := AList.delete ref (pending data)\<rparr>)"
    by (auto simp: finalize_payment_def save_data_def Let_def split: sum.splits option.splits)
  have inv: "store_inv data"
    using assms(1) ld by (rule store_inv_loaded)
  then have "record_inv u"
    using u by (rule store_inv_lookup)
  then have "store_inv (data\<lparr>users := AList.update uid (u\<lparr>manual_limit := Some new_limit\<rparr>) (users data)\<rparr>)"
    using inv by (simp add: store_inv_set_user record_inv_def)
  then show ?thesis
    using f by (simp add: file_inv_def store_inv_def)
qed

lemma handle_inv:
  "file_inv file \<Longrightarrow> handle cfg req file = Inr (file', r) \<Longrightarrow> file_inv file'"
  by (cases req)
     (auto dest: start_cmd_inv get_key_handler_inv my_keys_handler_same set_limit_callback_inv
        buy_key_handler_inv finalize_payment_inv)

lemma file_after_inv: "file_inv file \<Longrightarrow> file_inv (file_after cfg req file)"
  by (auto simp: file_after_def dest: handle_inv split: sum.split)

lemma run_inv: "file_inv file \<Longrightarrow> file_inv (run cfg reqs file)"
  by (induction reqs arbitrary: "file") (simp_all add: file_after_inv)

lemma answers_sel:
  "get_chat_member (answers st b) = (\<lambda>c u. Inr st)"
  "urandom_1 (answers st b) = (\<lambda>i. b)"
  "urandom_2 (answers st b) = (\<lambda>i. b)"
  "now_1 (answers st b) = 0"
  "now_2 (answers st b) = 0"
  "timestamp (answers st b) = (\<lambda>t. t)"
  "clock_1 (answers st b) = 0"
  "clock_2 (answers st b) = 0"
  by (simp_all add: answers_def)

text \<open>
  C6. The counter never drifts: \<open>keys_used\<close> equals the length of \<open>keys\<close> in every
  stored user record of the empty store, and when it does so in the data file before a
  request (start, get key, my keys, set limit, buy, finalize), it does so in the data
  file the handler leaves, in the data file after a request whose handler raised, and
  after every sequence of requests.
\<close>

theorem keys_used_never_drifts:
  "file_inv NoFile \<and>
   (file_inv file \<longrightarrow>
      (handle cfg req file = Inr (file', r) \<longrightarrow> file_inv file') \<and>
      file_inv (file_after cfg req file) \<and>
      file_inv (run cfg reqs file))"
  using handle_inv [of "file" cfg req file' r] file_after_inv [of "file" cfg req]
    run_inv [of "file" cfg reqs]
  by (auto simp: file_inv_def)

theorem keys_used_never_drifts_witness:
  "file_inv NoFile
   \<and> handle one_chat (GetKey (answers ''member'' 0) 5 None) NoFile =
       Inr (Holds \<lparr>users = [(''5'', \<lparr>username = None, manual_limit = None, keys_used = 1,
                     keys = [\<lparr>id_k = ''000000'', key = ''KVN-00000000'',
                              valid_until = 2592000, created_at = 0\<rparr>]\<rparr>)],
                   pending = []\<rparr>,
            KeyIssued ''KVN-00000000'' 2592000 1 3)
   \<and> file_inv (Holds \<lparr>users = [(''5'', \<lparr>username = None, manual_limit = None, keys_used = 1,
                     keys = [\<lparr>id_k = ''000000'', key = ''KVN-00000000'',
                              valid_until = 2592000, created_at = 0\<rparr>]\<rparr>)],
                   pending = []\<rparr>)
   \<and> file_inv (run one_chat [GetKey (answers ''member'' 0) 5 None, BuyKey (answers ''member'' 0) 5,
                              GetKey (answers ''member'' 1) 5 None] NoFile)"
proof -
  have h: "handle one_chat (GetKey (answers ''member'' 0) 5 None) NoFile =
       Inr (Holds \<lparr>users = [(''5'', \<lparr>username = None, manual_limit = None, keys_used = 1,
                     keys = [\<lparr>id_k = ''000000'', key = ''KVN-00000000'',
                              valid_until = 2592000, created_at = 0\<rparr>]\<rparr>)],
                   pending = []\<rparr>,
            KeyIssued ''KVN-00000000'' 2592000 1 3)"
    by (simp add: get_key_handler_def load_data_def empty_snapshot_def ensure_user_def str_int_5
        calculate_limit_def counted_status_def KEYS_PER_CHAT_def one_chat_def
        answers_sel generate_key_string_def token_hex_def byte_hex_def hexdigit_def upper_def
        upper_char_def save_data_def thirty_days_def upt_rec Let_def)
  have n: "file_inv NoFile"
    by (simp add: file_inv_def)
  show ?thesis
    using n h
      keys_used_never_drifts [of NoFile one_chat "GetKey (answers ''member'' 0) 5 None"
        "Holds \<lparr>users = [(''5'', \<lparr>username = None, manual_limit = None, keys_used = 1,
                     keys = [\<lparr>id_k = ''000000'', key = ''KVN-00000000'',
                              valid_until = 2592000, created_at = 0\<rparr>]\<rparr>)],
                   pending = []\<rparr>"
        "KeyIssued ''KVN-00000000'' 2592000 1 3"
        "[GetKey (answers ''member'' 0) 5 None, BuyKey (answers ''member'' 0) 5,
          GetKey (answers ''member'' 1) 5 None]"]
    by simp
qed

section \<open>Issuing keys within the limit\<close>

lemma calculate_limit_cong:
  "manual_limit u = manual_limit u' \<Longrightarrow> calculate_limit cfg api uid u = calculate_limit cfg api uid u'"
  by (simp add: calculate_limit_def)

lemma ensure_user_lookup:
  "map_of (users (ensure_user uid uname data)) uid =
     Some (case map_of (users data) uid of
             None \<Rightarrow> \<lparr>username = uname, manual_limit = None, keys_used = 0, keys = []\<rparr>
           | Some u \<Rightarrow> u\<lparr>username := uname\<rparr>)"
  by (simp add: ensure_user_def update_conv' split: option.split)

text \<open>The record the handler works on, the limit it computes and the count it compares.\<close>

lemma get_key_handler_unfold:
  assumes "load_data f = Inr data"
  shows "get_key_handler cfg w from_id uname f =
     (let uid = str_int from_id;
          u = (case map_of (users data) uid of
                 None \<Rightarrow> \<lparr>username = uname, manual_limit = None, keys_used = 0, keys = []\<rparr>
               | Some u \<Rightarrow> u\<lparr>username := uname\<rparr>);
          limit = current_limit cfg (get_chat_member w) from_id f;
          used = key_count uid f
      in if limit \<le> used then Inr (f, LimitExceeded limit used)
         else Inr (Holds ((ensure_user uid uname data)\<lparr>users :=
                      AList.update uid
                        (u\<lparr>keys := keys u @
                              [\<lparr>id_k = upper (token_hex 3 (urandom_2 w)),
                                key = generate_key_string (urandom_1 w),
                                valid_until = timestamp w (now_1 w + thirty_days),
                                created_at = timestamp w (now_2 w)\<rparr>],
                           keys_used := used + 1\<rparr>)
                        (users (ensure_user uid uname data))\<rparr>),
                   KeyIssued (generate_key_string (urandom_1 w)) (now_1 w + thirty_days)
                     (used + 1) limit))"
proof -
  have l: "current_limit cfg (get_chat_member w) from_id f =
      calculate_limit cfg (get_chat_member w) from_id
        (case map_of (users data) (str_int from_id) of
                 None \<Rightarrow> \<lparr>username = uname, manual_limit = None, keys_used = 0, keys = []\<rparr>
               | Some u \<Rightarrow> u\<lparr>username := uname\<rparr>)"
    using assms unfolding current_limit_def stored_user_def
    by (auto intro!: calculate_limit_cong split: option.split)
  have k: "key_count (str_int from_id) f =
      int (length (keys (case map_of (users data) (str_int from_id) of
                 None \<Rightarrow> \<lparr>username = uname, manual_limit = None, keys_used = 0, keys = []\<rparr>
               | Some u \<Rightarrow> u\<lparr>username := uname\<rparr>)))"
    using assms by (simp add: key_count_def stored_user_def split: option.split)
  show ?thesis
    using assms
    by (simp add: get_key_handler_def ensure_user_lookup Let_def save_data_def l k add.commute
        split: option.split)
qed


lemma stored_user_Holds [simp]: "stored_user uid (Holds data) = map_of (users data) uid"
  by (simp add: stored_user_def load_data_def)

lemma manual_limit_case:
  "manual_limit (case x of None \<Rightarrow> a | Some u \<Rightarrow> g u) =
     (case x of None \<Rightarrow> manual_limit a | Some u \<Rightarrow> manual_limit (g u))"
  by (cases x) simp_all

text \<open>One attempt by a user: what it leaves in the file for that user.\<close>

lemma get_key_step:
  assumes "load_data f = Inr data"
  shows "(let uid = str_int from_id;
              limit = current_limit cfg (get_chat_member w) from_id f;
              used = key_count uid f;
              f' = file_after cfg (GetKey w from_id uname) f
          in (limit \<le> used \<longrightarrow> f' = f)
             \<and> (used < limit \<longrightarrow> key_count uid f' = used + 1)
             \<and> current_limit cfg api from_id f' = current_limit cfg api from_id f)"
proof -
  have st: "stored_user uid f = map_of (users data) uid" for uid
    using assms by (simp add: stored_user_def)
  have "current_limit cfg api from_id
          (Holds ((ensure_user (str_int from_id) uname data)\<lparr>users :=
             AList.update (str_int from_id) (u\<lparr>keys := ks, keys_used := n\<rparr>)
               (users (ensure_user (str_int from_id) uname data))\<rparr>))
        = current_limit cfg api from_id f"
    if "manual_limit u = (case map_of (users data) (str_int from_id) of None \<Rightarrow> None | Some u0 \<Rightarrow> manual_limit u0)"
    for u ks n
    using that
    by (auto simp: current_limit_def update_conv' st intro!: calculate_limit_cong
        split: option.split)
  then show ?thesis
    using assms
    by (simp add: file_after_def get_key_handler_unfold Let_def key_count_def update_conv'
        manual_limit_case st split: option.split)
qed


lemma file_after_unloadable: "load_data f = Inl e \<Longrightarrow> file_after cfg (GetKey w from_id uname) f = f"
  by (simp add: file_after_def get_key_handler_def)

lemma get_key_step_any:
  "(let uid = str_int from_id;
        limit = current_limit cfg (get_chat_member w) from_id f;
        used = key_count uid f;
        f' = file_after cfg (GetKey w from_id uname) f
    in (used \<le> limit \<longrightarrow> key_count uid f' \<le> limit)
       \<and> key_count uid f' \<le> max limit used
       \<and> current_limit cfg api from_id f' = current_limit cfg api from_id f)"
proof (cases "load_data f")
  case (Inl e)
  then show ?thesis
    by (simp add: file_after_unloadable Let_def)
next
  case (Inr data)
  show ?thesis
    using get_key_step [OF Inr, of from_id cfg w uname api]
    by (auto simp: Let_def)
qed

lemma attempts_within_limit:
  assumes "\<forall>a \<in> set as. get_chat_member (fst a) = api"
    and "key_count (str_int from_id) f \<le> current_limit cfg api from_id f"
  shows "key_count (str_int from_id) (run cfg (map (\<lambda>a. GetKey (fst a) from_id (snd a)) as) f)
           \<le> current_limit cfg api from_id f"
  using assms
proof (induction as arbitrary: f)
  case Nil
  then show ?case by simp
next
  case (Cons a as)
  let ?f' = "file_after cfg (GetKey (fst a) from_id (snd a)) f"
  have api: "get_chat_member (fst a) = api"
    using Cons.prems(1) by simp
  have step: "key_count (str_int from_id) ?f' \<le> current_limit cfg api from_id f"
    "current_limit cfg api from_id ?f' = current_limit cfg api from_id f"
    using get_key_step_any [of from_id cfg "fst a" f "snd a" api] Cons.prems(2)
    by (simp_all add: Let_def api)
  have "key_count (str_int from_id) (run cfg (map (\<lambda>a. GetKey (fst a) from_id (snd a)) as) ?f')
          \<le> current_limit cfg api from_id ?f'"
    using Cons.prems(1) step by (intro Cons.IH) simp_all
  then show ?case
    by (simp add: step)
qed

lemma get_key_loadable:
  "load_data f = Inr data \<Longrightarrow> \<exists>data'. load_data (file_after cfg (GetKey w from_id uname) f) = Inr data'"
  by (simp add: file_after_def get_key_handler_unfold Let_def load_data_def)

lemma key_count_NoFile: "key_count uid NoFile = 0"
  by (simp add: key_count_def stored_user_def load_data_def empty_snapshot_def)

lemma current_limit_NoFile:
  "current_limit one_chat (\<lambda>c u. Inr ''member'') 5 NoFile = 3"
  "current_limit one_chat (\<lambda>c u. Inr ''left'') 5 NoFile = 1"
  by (simp_all add: current_limit_def stored_user_def load_data_def empty_snapshot_def one_chat_def
      calculate_limit_def counted_status_def KEYS_PER_CHAT_def)

lemma key_count_stored_keys: "key_count uid f = int (length (stored_keys uid f))"
  by (simp add: key_count_def stored_keys_def split: option.split)

lemma stored_keys_NoFile: "stored_keys uid NoFile = []"
  by (simp add: stored_keys_def stored_user_def load_data_def empty_snapshot_def)

lemma users_ensure_user_update:
  "AList.update uid u (users (ensure_user uid uname data)) = AList.update uid u (users data)"
  by (simp add: ensure_user_def split: option.split)

lemma get_key_appends:
  assumes "load_data f = Inr data"
    and "key_count (str_int from_id) f < current_limit cfg (get_chat_member w) from_id f"
  shows "file_after cfg (GetKey w from_id uname) f =
           Holds (data\<lparr>users := AList.update (str_int from_id)
             ((case stored_user (str_int from_id) f of
                 None \<Rightarrow> \<lparr>username = uname, manual_limit = None, keys_used = 0, keys = []\<rparr>
               | Some u \<Rightarrow> u\<lparr>username := uname\<rparr>)
              \<lparr>keys := stored_keys (str_int from_id) f @
                  [\<lparr>id_k = upper (token_hex 3 (urandom_2 w)),
                    key = generate_key_string (urandom_1 w),
                    valid_until = timestamp w (now_1 w + thirty_days),
                    created_at = timestamp w (now_2 w)\<rparr>],
                keys_used := key_count (str_int from_id) f + 1\<rparr>)
             (users data)\<rparr>)"
proof -
  have st: "stored_user uid f = map_of (users data) uid" for uid
    using assms(1) by (simp add: stored_user_def)
  have e: "ensure_user uid uname data = data\<lparr>users := users (ensure_user uid uname data)\<rparr>" for uid
    by (simp add: ensure_user_def split: option.split)
  show ?thesis
    using assms(2)
    apply (simp add: file_after_def get_key_handler_unfold [OF assms(1)] Let_def st stored_keys_def
        users_ensure_user_update split: option.split)
    apply (auto simp: ensure_user_def key_count_def st)
    done
qed

lemma get_key_appends_keys:
  assumes "load_data f = Inr data"
    and "key_count (str_int from_id) f < current_limit cfg (get_chat_member w) from_id f"
  shows "stored_keys (str_int from_id) (file_after cfg (GetKey w from_id uname) f) =
           stored_keys (str_int from_id) f @
             [\<lparr>id_k = upper (token_hex 3 (urandom_2 w)),
               key = generate_key_string (urandom_1 w),
               valid_until = timestamp w (now_1 w + thirty_days),
               created_at = timestamp w (now_2 w)\<rparr>]"
    and "other \<noteq> str_int from_id \<Longrightarrow>
           stored_user other (file_after cfg (GetKey w from_id uname) f) = stored_user other f"
  using assms(1)
  by (simp_all add: get_key_appends [OF assms] stored_keys_def update_conv' stored_user_def
      load_data_def split: option.split)

lemma get_key_keeps_keys:
  "\<exists>ks. stored_keys v (file_after cfg (GetKey w from_id uname) f) = stored_keys v f @ ks"
proof (cases "load_data f")
  case (Inl e)
  then show ?thesis
    by (simp add: file_after_unloadable)
next
  case (Inr data)
  show ?thesis
  proof (cases "key_count (str_int from_id) f < current_limit cfg (get_chat_member w) from_id f")
    case True
    show ?thesis
    proof (cases "v = str_int from_id")
      case True
      with get_key_appends_keys(1) [OF Inr \<open>key_count _ _ < _\<close>, of uname] show ?thesis
        by simp
    next
      case False
      with get_key_appends_keys(2) [OF Inr True, of v uname] show ?thesis
        by (simp add: stored_keys_def)
    qed
  next
    case False
    then have "file_after cfg (GetKey w from_id uname) f = f"
      using get_key_step [OF Inr, of from_id cfg w uname "get_chat_member w"]
      by (simp add: Let_def)
    then show ?thesis
      by simp
  qed
qed

lemma attempts_keep_keys:
  "\<exists>ks. stored_keys v (run cfg (map (\<lambda>a. GetKey (fst a) from_id (snd a)) as) f) = stored_keys v f @ ks"
proof (induction as arbitrary: f)
  case Nil
  show ?case by simp
next
  case (Cons a as)
  obtain ks1 where "stored_keys v (file_after cfg (GetKey (fst a) from_id (snd a)) f) = stored_keys v f @ ks1"
    using get_key_keeps_keys by blast
  moreover obtain ks2 where
    "stored_keys v (run cfg (map (\<lambda>a. GetKey (fst a) from_id (snd a)) as)
        (file_after cfg (GetKey (fst a) from_id (snd a)) f))
      = stored_keys v (file_after cfg (GetKey (fst a) from_id (snd a)) f) @ ks2"
    using Cons.IH by blast
  ultimately show ?case
    by simp
qed

text \<open>
  The limit is computed anew at each attempt. A user who is a member of the chat gets
  three keys in three attempts; at the fourth attempt the user has left the chat, the
  limit is 1, the handler answers \<open>LimitExceeded 1 3\<close>, and the user has three keys,
  which is more than the limit.
\<close>

theorem keys_above_limit_counterexample:
  "get_key_handler one_chat (answers ''left'' 4) 5 None
     (run one_chat [GetKey (answers ''member'' 1) 5 None, GetKey (answers ''member'' 2) 5 None,
                    GetKey (answers ''member'' 3) 5 None] NoFile)
     = Inr (run one_chat [GetKey (answers ''member'' 1) 5 None, GetKey (answers ''member'' 2) 5 None,
                          GetKey (answers ''member'' 3) 5 None] NoFile,
            LimitExceeded 1 3)
   \<and> key_count ''5''
        (run one_chat [GetKey (answers ''member'' 1) 5 None, GetKey (answers ''member'' 2) 5 None,
                       GetKey (answers ''member'' 3) 5 None, GetKey (answers ''left'' 4) 5 None] NoFile) = 3
   \<and> \<not> key_count ''5''
        (run one_chat [GetKey (answers ''member'' 1) 5 None, GetKey (answers ''member'' 2) 5 None,
                       GetKey (answers ''member'' 3) 5 None, GetKey (answers ''left'' 4) 5 None] NoFile)
       \<le> 1"
proof -
  define f1 where "f1 = file_after one_chat (GetKey (answers ''member'' 1) 5 None) NoFile"
  define f2 where "f2 = file_after one_chat (GetKey (answers ''member'' 2) 5 None) f1"
  define f3 where "f3 = file_after one_chat (GetKey (answers ''member'' 3) 5 None) f2"
  have l0: "load_data NoFile = Inr empty_snapshot"
    by (simp add: load_data_def)
  obtain d1 where l1: "load_data f1 = Inr d1"
    using get_key_loadable [OF l0] unfolding f1_def by blast
  obtain d2 where l2: "load_data f2 = Inr d2"
    using get_key_loadable [OF l1] unfolding f2_def by blast
  obtain d3 where l3: "load_data f3 = Inr d3"
    using get_key_loadable [OF l2] unfolding f3_def by blast
  have s1: "key_count ''5'' f1 = 1"
    "current_limit one_chat api 5 f1 = current_limit one_chat api 5 NoFile" for api
    using get_key_step [OF l0, of 5 one_chat "answers ''member'' 1" None api]
    by (simp_all add: Let_def str_int_5 key_count_NoFile current_limit_NoFile f1_def answers_sel)
  have s2: "key_count ''5'' f2 = 2"
    "current_limit one_chat api 5 f2 = current_limit one_chat api 5 NoFile" for api
    using get_key_step [OF l1, of 5 one_chat "answers ''member'' 2" None api]
    by (simp_all add: Let_def str_int_5 s1 current_limit_NoFile f2_def answers_sel)
  have s3: "key_count ''5'' f3 = 3"
    "current_limit one_chat api 5 f3 = current_limit one_chat api 5 NoFile" for api
    using get_key_step [OF l2, of 5 one_chat "answers ''member'' 3" None api]
    by (simp_all add: Let_def str_int_5 s2 current_limit_NoFile f3_def answers_sel)
  have r3: "run one_chat [GetKey (answers ''member'' 1) 5 None, GetKey (answers ''member'' 2) 5 None,
                    GetKey (answers ''member'' 3) 5 None] NoFile = f3"
    by (simp add: f1_def f2_def f3_def)
  have h: "get_key_handler one_chat (answers ''left'' 4) 5 None f3 = Inr (f3, LimitExceeded 1 3)"
    by (simp add: get_key_handler_unfold [OF l3] Let_def str_int_5 s3 current_limit_NoFile answers_sel)
  have r4: "run one_chat [GetKey (answers ''member'' 1) 5 None, GetKey (answers ''member'' 2) 5 None,
                    GetKey (answers ''member'' 3) 5 None, GetKey (answers ''left'' 4) 5 None] NoFile = f3"
    using h by (simp add: f1_def f2_def f3_def file_after_def)
  show ?thesis
    unfolding r3 r4 using h s3 by simp
qed

text \<open>
  C1, as the code has it. On a data file that loads, let \<open>limit\<close> be the limit the
  handler computes for the user under the answers of this attempt and \<open>used\<close> the
  number of keys the user has. When \<open>limit \<le> used\<close> the handler answers
  \<open>LimitExceeded limit used\<close> and leaves the data file as it is. When
  \<open>used < limit\<close> it answers \<open>KeyIssued\<close> and saves the snapshot it loaded with
  one change: the record of the user is the stored one with the name refreshed (a new
  one when there was none), with the new key appended to the keys it had and the
  counter raised by one; the keys issued earlier stay, in their order, and every other
  user is as before. So after the attempt the user has at most \<open>max limit used\<close>
  keys; after every sequence of attempts by the user during which the membership
  answers are those of this attempt, started with \<open>used \<le> limit\<close>, the user has at
  most \<open>limit\<close> keys; and after every sequence of attempts the keys every user had
  before are still there, as the first keys of the user.
\<close>

theorem issue_key_within_limit:
  "load_data f = Inr data \<Longrightarrow>
   (let uid = str_int from_id;
        limit = current_limit cfg (get_chat_member w) from_id f;
        used = key_count uid f;
        f' = file_after cfg (GetKey w from_id uname) f;
        new_key = \<lparr>id_k = upper (token_hex 3 (urandom_2 w)),
                   key = generate_key_string (urandom_1 w),
                   valid_until = timestamp w (now_1 w + thirty_days),
                   created_at = timestamp w (now_2 w)\<rparr>;
        base = (case stored_user uid f of
                  None \<Rightarrow> \<lparr>username = uname, manual_limit = None, keys_used = 0, keys = []\<rparr>
                | Some u \<Rightarrow> u\<lparr>username := uname\<rparr>)
    in (limit \<le> used \<longrightarrow>
          get_key_handler cfg w from_id uname f = Inr (f, LimitExceeded limit used))
       \<and> (used < limit \<longrightarrow>
            get_key_handler cfg w from_id uname f =
              Inr (f', KeyIssued (generate_key_string (urandom_1 w)) (now_1 w + thirty_days)
                         (used + 1) limit)
            \<and> f' = Holds (data\<lparr>users := AList.update uid
                       (base\<lparr>keys := stored_keys uid f @ [new_key], keys_used := used + 1\<rparr>)
                       (users data)\<rparr>)
            \<and> stored_keys uid f' = stored_keys uid f @ [new_key]
            \<and> (\<forall>other. other \<noteq> uid \<longrightarrow> stored_user other f' = stored_user other f)
            \<and> key_count uid f' = used + 1)
       \<and> key_count uid f' \<le> max limit used
       \<and> ((\<forall>a \<in> set as. get_chat_member (fst a) = get_chat_member w) \<and> used \<le> limit \<longrightarrow>
            key_count uid (run cfg (map (\<lambda>a. GetKey (fst a) from_id (snd a)) as) f) \<le> limit)
       \<and> (\<forall>v. \<exists>ks. stored_keys v (run cfg (map (\<lambda>a. GetKey (fst a) from_id (snd a)) as) f)
                       = stored_keys v f @ ks))"
proof -
  assume ld: "load_data f = Inr data"
  have a: "current_limit cfg (get_chat_member w) from_id f \<le> key_count (str_int from_id) f \<Longrightarrow>
      get_key_handler cfg w from_id uname f =
        Inr (f, LimitExceeded (current_limit cfg (get_chat_member w) from_id f)
                  (key_count (str_int from_id) f))"
    by (simp add: get_key_handler_unfold [OF ld] Let_def)
  have b: "key_count (str_int from_id) f < current_limit cfg (get_chat_member w) from_id f \<Longrightarrow>
      get_key_handler cfg w from_id uname f =
        Inr (file_after cfg (GetKey w from_id uname) f,
             KeyIssued (generate_key_string (urandom_1 w)) (now_1 w + thirty_days)
               (key_count (str_int from_id) f + 1) (current_limit cfg (get_chat_member w) from_id f))"
    by (simp add: file_after_def get_key_handler_unfold [OF ld] Let_def)
  have c: "key_count (str_int from_id) f < current_limit cfg (get_chat_member w) from_id f \<Longrightarrow>
      key_count (str_int from_id) (file_after cfg (GetKey w from_id uname) f)
        = key_count (str_int from_id) f + 1"
    using get_key_step [OF ld, of from_id cfg w uname "get_chat_member w"] by (simp add: Let_def)
  have d: "key_count (str_int from_id) (file_after cfg (GetKey w from_id uname) f)
      \<le> max (current_limit cfg (get_chat_member w) from_id f) (key_count (str_int from_id) f)"
    using get_key_step_any [of from_id cfg w f uname "get_chat_member w"] by (simp add: Let_def)
  have e: "(\<forall>a \<in> set as. get_chat_member (fst a) = get_chat_member w) \<and>
      key_count (str_int from_id) f \<le> current_limit cfg (get_chat_member w) from_id f \<Longrightarrow>
      key_count (str_int from_id) (run cfg (map (\<lambda>a. GetKey (fst a) from_id (snd a)) as) f)
        \<le> current_limit cfg (get_chat_member w) from_id f"
    using attempts_within_limit [of as "get_chat_member w" from_id f cfg] by blast
  note g = get_key_appends [OF ld, of from_id cfg w uname]
    get_key_appends_keys [OF ld, where from_id = from_id and cfg = cfg and w = w and uname = uname]
  have h: "\<forall>v. \<exists>ks. stored_keys v (run cfg (map (\<lambda>a. GetKey (fst a) from_id (snd a)) as) f)
                       = stored_keys v f @ ks"
    using attempts_keep_keys by blast
  show ?thesis
    unfolding Let_def using a b c d e g h by blast
qed

theorem issue_key_within_limit_witness:
  "load_data NoFile = Inr empty_snapshot
   \<and> current_limit one_chat (\<lambda>c u. Inr ''member'') 5 NoFile = 3
   \<and> key_count ''5'' NoFile = 0
   \<and> get_key_handler one_chat (answers ''member'' 1) 5 None NoFile =
        Inr (file_after one_chat (GetKey (answers ''member'' 1) 5 None) NoFile,
             KeyIssued (generate_key_string (\<lambda>i. 1)) thirty_days 1 3)
   \<and> file_after one_chat (GetKey (answers ''member'' 1) 5 None) NoFile =
        Holds \<lparr>users = [(''5'', \<lparr>username = None, manual_limit = None, keys_used = 1,
                 keys = [\<lparr>id_k = upper (token_hex 3 (\<lambda>i. 1)), key = generate_key_string (\<lambda>i. 1),
                          valid_until = thirty_days, created_at = 0\<rparr>]\<rparr>)],
               pending = []\<rparr>
   \<and> stored_keys ''5'' (file_after one_chat (GetKey (answers ''member'' 1) 5 None) NoFile) =
        [\<lparr>id_k = upper (token_hex 3 (\<lambda>i. 1)), key = generate_key_string (\<lambda>i. 1),
          valid_until = thirty_days, created_at = 0\<rparr>]
   \<and> key_count ''5'' (file_after one_chat (GetKey (answers ''member'' 1) 5 None) NoFile) = 1
   \<and> key_count ''5''
        (run one_chat (map (\<lambda>a. GetKey (fst a) 5 (snd a))
           [(answers ''member'' 1, None), (answers ''member'' 2, None),
            (answers ''member'' 3, None), (answers ''member'' 4, None)]) NoFile) \<le> 3"
proof -
  have l0: "load_data NoFile = Inr empty_snapshot"
    by (simp add: load_data_def)
  have same: "\<forall>a \<in> set [(answers ''member'' 1, None :: string option), (answers ''member'' 2, None),
            (answers ''member'' 3, None), (answers ''member'' 4, None)].
        get_chat_member (fst a) = get_chat_member (answers ''member'' 1)"
    by (simp add: answers_sel)
  have none: "stored_user ''5'' NoFile = None"
    by (simp add: stored_user_def load_data_def empty_snapshot_def)
  show ?thesis
    using l0 same
      issue_key_within_limit [OF l0, of 5 one_chat "answers ''member'' 1" None
        "[(answers ''member'' 1, None), (answers ''member'' 2, None),
          (answers ''member'' 3, None), (answers ''member'' 4, None)]"]
    by (auto simp: Let_def str_int_5 key_count_NoFile current_limit_NoFile answers_sel
        stored_keys_NoFile none empty_snapshot_def)
qed

section \<open>Credentials\<close>

lemma hex_table: "list_all (\<lambda>d. hex_value (upper_char (hexdigit d)) = d) [0..<16]"
  by (simp add: upt_rec hex_value_def upper_char_def hexdigit_def)

lemma hex_value_upper_hexdigit: "d < 16 \<Longrightarrow> hex_value (upper_char (hexdigit d)) = d"
  using hex_table by (simp add: list_all_iff)

lemma upper_byte_hex_inject:
  "map upper_char (byte_hex b) = map upper_char (byte_hex b') \<longleftrightarrow> b = b'"
proof
  assume eq: "map upper_char (byte_hex b) = map upper_char (byte_hex b')"
  have lt: "unat x div 16 < 16" "unat x mod 16 < 16" for x :: "8 word"
    using unsigned_less [of x, where 'a = nat] by simp_all
  from eq have "hex_value (upper_char (hexdigit (unat b div 16))) =
                hex_value (upper_char (hexdigit (unat b' div 16)))"
    and "hex_value (upper_char (hexdigit (unat b mod 16))) =
         hex_value (upper_char (hexdigit (unat b' mod 16)))"
    by (simp_all add: byte_hex_def)
  then have "unat b div 16 = unat b' div 16" "unat b mod 16 = unat b' mod 16"
    by (simp_all add: hex_value_upper_hexdigit lt)
  moreover have "unat x = 16 * (unat x div 16) + unat x mod 16" for x :: "8 word"
    by simp
  ultimately have "unat b = unat b'"
    by metis
  then show "b = b'"
    by (simp add: word_unat_eq_iff)
qed simp

lemma length_token_hex: "length (token_hex n r) = 2 * n"
  by (induction n) (simp_all add: token_hex_def byte_hex_def)

lemma token_hex_Suc: "token_hex (Suc n) r = token_hex n r @ byte_hex (r n)"
  by (simp add: token_hex_def)

lemma upper_token_hex_inject:
  "upper (token_hex n r) = upper (token_hex n r') \<longleftrightarrow> (\<forall>i<n. r i = r' i)"
proof (induction n)
  case 0
  show ?case by (simp add: token_hex_def)
next
  case (Suc n)
  have "upper (token_hex (Suc n) r) = upper (token_hex (Suc n) r') \<longleftrightarrow>
        upper (token_hex n r) = upper (token_hex n r') \<and>
        map upper_char (byte_hex (r n)) = map upper_char (byte_hex (r' n))"
    by (simp add: token_hex_Suc upper_def length_token_hex)
  then show ?case
    by (simp add: Suc.IH upper_byte_hex_inject less_Suc_eq) blast
qed

lemma generate_key_string_inject:
  "generate_key_string r = generate_key_string r' \<longleftrightarrow> (\<forall>i<4. r i = r' i)"
  by (simp add: generate_key_string_def upper_token_hex_inject)

lemma draws_eq: "map r [0..<n] = map r' [0..<n] \<longleftrightarrow> (\<forall>i<n. r i = r' i)"
  by (auto simp: list_eq_iff_nth_eq)

lemma distinct_credentials:
  "distinct (map generate_key_string rs) \<longleftrightarrow> distinct (map (\<lambda>r. map r [0..<4]) rs)"
proof -
  have k: "generate_key_string r = generate_key_string r' \<longleftrightarrow> map r [0..<4] = map r' [0..<4]"
    for r r'
    by (simp only: generate_key_string_inject draws_eq)
  show ?thesis
    by (induction rs) (auto simp: k)
qed


lemma str_int_6: "str_int 6 = ''6''"
  by (simp add: str_int_def str_nat.simps digit_char_def)

lemmas issue_eval =
  get_key_handler_def load_data_def empty_snapshot_def ensure_user_def
  calculate_limit_def counted_status_def KEYS_PER_CHAT_def one_chat_def
  answers_sel generate_key_string_def token_hex_def byte_hex_def hexdigit_def upper_def
  upper_char_def save_data_def thirty_days_def upt_rec Let_def

text \<open>
  The handler does not compare a new credential with those in the store. Two users
  whose requests draw the same four bytes both get a key, and both keys carry the
  credential \<^verbatim>\<open>KVN-00000000\<close>: the credentials in the store are not distinct.
\<close>

theorem same_draw_same_credential_counterexample:
  "handle one_chat (GetKey (answers ''member'' 0) 5 None) NoFile =
     Inr (Holds \<lparr>users = [(''5'', \<lparr>username = None, manual_limit = None, keys_used = 1,
                   keys = [\<lparr>id_k = ''000000'', key = ''KVN-00000000'',
                            valid_until = 2592000, created_at = 0\<rparr>]\<rparr>)],
                 pending = []\<rparr>,
          KeyIssued ''KVN-00000000'' 2592000 1 3)
   \<and> handle one_chat (GetKey (answers ''member'' 0) 6 None)
       (Holds \<lparr>users = [(''5'', \<lparr>username = None, manual_limit = None, keys_used = 1,
                   keys = [\<lparr>id_k = ''000000'', key = ''KVN-00000000'',
                            valid_until = 2592000, created_at = 0\<rparr>]\<rparr>)],
                 pending = []\<rparr>) =
     Inr (Holds \<lparr>users = [(''5'', \<lparr>username = None, manual_limit = None, keys_used = 1,
                   keys = [\<lparr>id_k = ''000000'', key = ''KVN-00000000'',
                            valid_until = 2592000, created_at = 0\<rparr>]\<rparr>),
                          (''6'', \<lparr>username = None, manual_limit = None, keys_used = 1,
                   keys = [\<lparr>id_k = ''000000'', key = ''KVN-00000000'',
                            valid_until = 2592000, created_at = 0\<rparr>]\<rparr>)],
                 pending = []\<rparr>,
          KeyIssued ''KVN-00000000'' 2592000 1 3)
   \<and> all_credentials (run one_chat [GetKey (answers ''member'' 0) 5 None,
                                     GetKey (answers ''member'' 0) 6 None] NoFile)
       = [''KVN-00000000'', ''KVN-00000000'']
   \<and> \<not> distinct (all_credentials (run one_chat [GetKey (answers ''member'' 0) 5 None,
                                     GetKey (answers ''member'' 0) 6 None] NoFile))"
proof -
  have h1: "get_key_handler one_chat (answers ''member'' 0) 5 None NoFile =
     Inr (Holds \<lparr>users = [(''5'', \<lparr>username = None, manual_limit = None, keys_used = 1,
                   keys = [\<lparr>id_k = ''000000'', key = ''KVN-00000000'',
                            valid_until = 2592000, created_at = 0\<rparr>]\<rparr>)],
                 pending = []\<rparr>,
          KeyIssued ''KVN-00000000'' 2592000 1 3)"
    by (simp add: issue_eval str_int_5)
  have h2: "get_key_handler one_chat (answers ''member'' 0) 6 None
       (Holds \<lparr>users = [(''5'', \<lparr>username = None, manual_limit = None, keys_used = 1,
                   keys = [\<lparr>id_k = ''000000'', key = ''KVN-00000000'',
                            valid_until = 2592000, created_at = 0\<rparr>]\<rparr>)],
                 pending = []\<rparr>) =
     Inr (Holds \<lparr>users = [(''5'', \<lparr>username = None, manual_limit = None, keys_used = 1,
                   keys = [\<lparr>id_k = ''000000'', key = ''KVN-00000000'',
                            valid_until = 2592000, created_at = 0\<rparr>]\<rparr>),
                          (''6'', \<lparr>username = None, manual_limit = None, keys_used = 1,
                   keys = [\<lparr>id_k = ''000000'', key = ''KVN-00000000'',
                            valid_until = 2592000, created_at = 0\<rparr>]\<rparr>)],
                 pending = []\<rparr>,
          KeyIssued ''KVN-00000000'' 2592000 1 3)"
    by (simp add: issue_eval str_int_6)
  have r: "all_credentials (run one_chat [GetKey (answers ''member'' 0) 5 None,
                                     GetKey (answers ''member'' 0) 6 None] NoFile)
       = [''KVN-00000000'', ''KVN-00000000'']"
    by (simp add: file_after_def h1 h2 all_credentials_def load_data_def)
  show ?thesis
    using h1 h2 r by simp
qed

lemma issued_key_stored:
  assumes "load_data f = Inr data"
    and "key_count (str_int from_id) f < current_limit cfg (get_chat_member w) from_id f"
  shows "\<exists>u. stored_user (str_int from_id) (file_after cfg (GetKey w from_id uname) f) = Some u
           \<and> keys u \<noteq> [] \<and> key (last (keys u)) = generate_key_string (urandom_1 w)"
  using assms
  by (simp add: file_after_def get_key_handler_unfold Let_def update_conv')

text \<open>
  C5, as the code has it. The credential is \<^verbatim>\<open>KVN-\<close> followed by the eight
  upper-case hexadecimal digits of the four bytes drawn. Two credentials are equal exactly
  when the four bytes drawn are equal, so the credentials of any number of draws are
  pairwise distinct exactly when the draws are. The key a successful request stores
  carries the credential of its own draw, whatever the store holds.
\<close>

theorem credentials_follow_draws:
  "(generate_key_string r = generate_key_string r' \<longleftrightarrow> (\<forall>i<4. r i = r' i))
   \<and> (distinct (map generate_key_string rs) \<longleftrightarrow> distinct (map (\<lambda>r. map r [0..<4]) rs))
   \<and> (load_data f = Inr data \<and>
       key_count (str_int from_id) f < current_limit cfg (get_chat_member w) from_id f \<longrightarrow>
        (\<exists>u. stored_user (str_int from_id) (file_after cfg (GetKey w from_id uname) f) = Some u
             \<and> keys u \<noteq> [] \<and> key (last (keys u)) = generate_key_string (urandom_1 w)))"
  using generate_key_string_inject [of r r'] distinct_credentials [of rs]
    issued_key_stored [of f data from_id cfg w uname]
  by blast

theorem credentials_follow_draws_witness:
  "generate_key_string (\<lambda>i. 0) \<noteq> generate_key_string (\<lambda>i. 1)
   \<and> distinct (map generate_key_string [\<lambda>i. 0, \<lambda>i. 1])
   \<and> load_data NoFile = Inr empty_snapshot
   \<and> key_count ''5'' NoFile < current_limit one_chat (\<lambda>c u. Inr ''member'') 5 NoFile
   \<and> (\<exists>u. stored_user ''5'' (file_after one_chat (GetKey (answers ''member'' 0) 5 None) NoFile) = Some u
          \<and> keys u \<noteq> [] \<and> key (last (keys u)) = generate_key_string (\<lambda>i. 0))"
proof -
  have l0: "load_data NoFile = Inr empty_snapshot"
    by (simp add: load_data_def)
  have d: "\<not> (\<forall>i<4. (\<lambda>i::nat. 0 :: 8 word) i = (\<lambda>i. 1) i)"
    by (auto intro!: exI [of _ 0])
  have dd: "distinct (map (\<lambda>r. map r [0..<4]) [\<lambda>i. 0 :: 8 word, \<lambda>i. 1])"
    by (simp add: upt_rec)
  show ?thesis
    using l0 d dd
      credentials_follow_draws [of "\<lambda>i. 0" "\<lambda>i. 1" "[\<lambda>i. 0, \<lambda>i. 1]" NoFile empty_snapshot
        5 one_chat "answers ''member'' 0" None]
    by (simp add: str_int_5 key_count_NoFile current_limit_NoFile answers_sel)
qed

section \<open>Payment comments\<close>

lemma str_int_no_underscore: "CHR ''_'' \<notin> set (str_int n)"
  using str_nat_digits [of "nat n"] str_nat_digits [of "nat (- n)"] is_digit_plain
  by (auto simp: str_int_def list_all_iff)

lemma split_at_first:
  assumes "c \<notin> set a" and "c \<notin> set a'" and "a @ c # b = a' @ c # b'"
  shows "a = a' \<and> b = b'"
proof -
  have "takeWhile (\<lambda>x. x \<noteq> c) (a @ c # b) = a" "takeWhile (\<lambda>x. x \<noteq> c) (a' @ c # b') = a'"
    using assms(1,2) by (auto simp: takeWhile_tail)
  with assms(3) have "a = a'"
    by simp
  with assms(3) show ?thesis
    by simp
qed

lemma payment_comment_inject:
  "payment_comment a t = payment_comment b t' \<longleftrightarrow> a = b \<and> py_trunc t = py_trunc t'"
proof
  assume "payment_comment a t = payment_comment b t'"
  then have "str_int a @ CHR ''_'' # str_int (py_trunc t) = str_int b @ CHR ''_'' # str_int (py_trunc t')"
    by (simp add: payment_comment_def)
  then have "str_int a = str_int b \<and> str_int (py_trunc t) = str_int (py_trunc t')"
    by (intro split_at_first [where c = "CHR ''_''"]) (simp_all add: str_int_no_underscore)
  then show "a = b \<and> py_trunc t = py_trunc t'"
    by (simp add: str_int_inject)
qed (simp add: payment_comment_def)

lemma buy_key_handler_unfold:
  "load_data f = Inr data \<Longrightarrow>
     buy_key_handler w from_id f =
       Inr (Holds (data\<lparr>pending := AList.update (payment_comment from_id (clock_1 w))
                     \<lparr>user_id = str_int from_id, amount = 0.5, created_at_p = clock_2 w,
                      status = ''waiting''\<rparr> (pending data)\<rparr>),
            Invoice (payment_comment from_id (clock_1 w)))"
  by (simp add: buy_key_handler_def Let_def save_data_def)

lemma update_present_keys:
  "map_of al k = Some v \<Longrightarrow> map fst (AList.update k v' al) = map fst al"
  by (simp add: update_keys map_of_eq_None_iff [symmetric] del: map_of_eq_None_iff)

lemma str_int_100: "str_int 100 = ''100''"
  by (simp add: str_int_def str_nat.simps digit_char_def)

lemma py_trunc_examples: "py_trunc (1001 / 10) = 100" "py_trunc (1007 / 10) = 100"
  by (simp_all add: py_trunc_def)

text \<open>
  Two purchases by user 5 within the same second, at 100.1 and at 100.7: both get the
  comment \<^verbatim>\<open>pay_5_100\<close>. The second comment is already pending when it is
  generated, and its entry replaces the first one.
\<close>

theorem same_second_same_comment_counterexample:
  "buy_key_handler ((answers ''member'' 0)\<lparr>clock_1 := 1001 / 10, clock_2 := 1003 / 10\<rparr>) 5 NoFile =
     Inr (Holds \<lparr>users = [], pending = [(''pay_5_100'',
            \<lparr>user_id = ''5'', amount = 0.5, created_at_p = 1003 / 10, status = ''waiting''\<rparr>)]\<rparr>,
          Invoice ''pay_5_100'')
   \<and> buy_key_handler ((answers ''member'' 0)\<lparr>clock_1 := 1007 / 10, clock_2 := 1009 / 10\<rparr>) 5
       (Holds \<lparr>users = [], pending = [(''pay_5_100'',
            \<lparr>user_id = ''5'', amount = 0.5, created_at_p = 1003 / 10, status = ''waiting''\<rparr>)]\<rparr>) =
     Inr (Holds \<lparr>users = [], pending = [(''pay_5_100'',
            \<lparr>user_id = ''5'', amount = 0.5, created_at_p = 1009 / 10, status = ''waiting''\<rparr>)]\<rparr>,
          Invoice ''pay_5_100'')
   \<and> map_of (pending \<lparr>users = [], pending = [(''pay_5_100'',
            \<lparr>user_id = ''5'', amount = 0.5, created_at_p = 1003 / 10, status = ''waiting''\<rparr>)]\<rparr>)
         ''pay_5_100'' \<noteq> None"
  by (simp add: buy_key_handler_def payment_comment_def py_trunc_examples str_int_5 str_int_100
      load_data_def empty_snapshot_def save_data_def answers_def Let_def)

text \<open>
  C8, as the code has it. The comment is \<^verbatim>\<open>pay_<user id>_<whole seconds>\<close>.
  Two comments are equal exactly when the user is the same and the clock reads the same
  whole second. The handler stores the entry under the comment without looking whether
  it is pending: on a data file that loads it always succeeds, and when the comment is
  already pending the pending comments stay the same and the entry is replaced.
\<close>

theorem payment_comment_collisions:
  "(payment_comment a t = payment_comment b t' \<longleftrightarrow> a = b \<and> py_trunc t = py_trunc t')
   \<and> (load_data f = Inr data \<longrightarrow>
        buy_key_handler w from_id f =
          Inr (Holds (data\<lparr>pending := AList.update (payment_comment from_id (clock_1 w))
                        \<lparr>user_id = str_int from_id, amount = 0.5, created_at_p = clock_2 w,
                         status = ''waiting''\<rparr> (pending data)\<rparr>),
               Invoice (payment_comment from_id (clock_1 w))))
   \<and> (map_of (pending data) (payment_comment from_id (clock_1 w)) = Some old \<longrightarrow>
        map fst (AList.update (payment_comment from_id (clock_1 w))
                   \<lparr>user_id = str_int from_id, amount = 0.5, created_at_p = clock_2 w,
                    status = ''waiting''\<rparr> (pending data))
          = map fst (pending data))"
  using payment_comment_inject [of a t b t'] buy_key_handler_unfold [of f data w from_id]
    update_present_keys [of "pending data" "payment_comment from_id (clock_1 w)" old]
  by blast

theorem payment_comment_collisions_witness:
  "payment_comment 5 (1001 / 10) = payment_comment 5 (1007 / 10)
   \<and> payment_comment 5 (1001 / 10) \<noteq> payment_comment 6 (1001 / 10)
   \<and> map_of (pending \<lparr>users = [], pending = [(''pay_5_100'',
            \<lparr>user_id = ''5'', amount = 0.5, created_at_p = 1003 / 10, status = ''waiting''\<rparr>)]\<rparr>)
         (payment_comment 5 (1007 / 10))
       = Some \<lparr>user_id = ''5'', amount = 0.5, created_at_p = 1003 / 10, status = ''waiting''\<rparr>
   \<and> buy_key_handler ((answers ''member'' 0)\<lparr>clock_1 := 1007 / 10, clock_2 := 1009 / 10\<rparr>) 5
       (Holds \<lparr>users = [], pending = [(''pay_5_100'',
            \<lparr>user_id = ''5'', amount = 0.5, created_at_p = 1003 / 10, status = ''waiting''\<rparr>)]\<rparr>) =
     Inr (Holds \<lparr>users = [], pending = [(''pay_5_100'',
            \<lparr>user_id = ''5'', amount = 0.5, created_at_p = 1009 / 10, status = ''waiting''\<rparr>)]\<rparr>,
          Invoice ''pay_5_100'')"
proof -
  have c: "payment_comment 5 (1007 / 10) = ''pay_5_100''"
    by (simp add: payment_comment_def py_trunc_examples str_int_5 str_int_100)
  show ?thesis
    using payment_comment_collisions [of 5 "1001 / 10" 5 "1007 / 10"
        "Holds \<lparr>users = [], pending = [(''pay_5_100'',
            \<lparr>user_id = ''5'', amount = 0.5, created_at_p = 1003 / 10, status = ''waiting''\<rparr>)]\<rparr>"
        "\<lparr>users = [], pending = [(''pay_5_100'',
            \<lparr>user_id = ''5'', amount = 0.5, created_at_p = 1003 / 10, status = ''waiting''\<rparr>)]\<rparr>"
        "(answers ''member'' 0)\<lparr>clock_1 := 1007 / 10, clock_2 := 1009 / 10\<rparr>" 5
        "\<lparr>user_id = ''5'', amount = 0.5, created_at_p = 1003 / 10, status = ''waiting''\<rparr>"]
      payment_comment_collisions [of 5 "1001 / 10" 6 "1001 / 10"]
    by (simp add: c py_trunc_examples load_data_def str_int_5)
qed

end
